theory Spec2Isabelle
  imports Main
begin

section \<open>Data model of protect-api.ts\<close>

text \<open>
  The client of the UniFi Protect controller API is the class \<open>ProtectApi\<close> of
  \<open>src/protect-api.ts\<close>. Its fields, the controller's answers and the objects the
  JavaScript runtime keeps for it (sockets, timers, the clock) are modelled as one
  record that every method takes and returns. JavaScript numbers are integers here
  (error counts, millisecond timestamps). A value that may be \<open>undefined\<close> or
  \<open>null\<close> is an \<open>option\<close>.
\<close>

type_synonym Headers = "string \<rightharpoonup> string"

record ProtectCameraChannelConfig =
  chan_id :: nat
  isRtspEnabled :: bool

record ProtectCameraConfig =
  cam_id :: string
  mac :: string
  modelKey :: string
  cam_name :: string
  cam_type :: string
  host :: string
  isManaged :: bool
  channels :: "ProtectCameraChannelConfig list option"

record ProtectNvrUserConfig =
  user_id :: string
  allPermissions :: "string list option"

record ProtectNvrInfo =
  nvr_name :: string
  nvr_type :: string
  nvr_host :: string
  nvr_mac :: string

record ProtectNvrBootstrap =
  cameras :: "ProtectCameraConfig list option"
  users :: "ProtectNvrUserConfig list option"
  authUserId :: string
  nvr :: "ProtectNvrInfo option"

text \<open>
  What \<open>response.json()\<close> can give: the call throws on a body that is not JSON
  (\<open>Unparseable\<close>); a JSON document is a bootstrap object, a camera object, or any
  other JSON value (which has no \<open>cameras\<close> member).
\<close>

datatype json = JBootstrap ProtectNvrBootstrap | JCamera ProtectCameraConfig | JOther

datatype body_t = Unparseable | Parsed json

record Response =
  status :: int
  resp_headers :: Headers
  body :: body_t

text \<open>node-fetch: \<open>response.ok\<close> is true for a status from 200 to 299.\<close>

definition ok :: "Response \<Rightarrow> bool" where
  "ok r = (200 \<le> status r \<and> status r < 300)"

datatype req_body =
  NoBody
  | LoginBody string string
  | ChannelsBody "ProtectCameraChannelConfig list"
  | PayloadBody string

record Request =
  req_method :: string
  req_url :: string
  req_body :: req_body

text \<open>
  The promise of node-fetch's \<open>fetch\<close> either rejects with an error carrying a
  \<open>code\<close>, or resolves with a response (of any status).
\<close>

datatype net_outcome = Rejects string | Resolves Response

text \<open>The lines written with \<open>this.log\<close> and \<open>this.debug\<close>, by message.\<close>

datatype event =
  LogThrottling int
  | LogResuming
  | LogInvalidCredentials
  | LogInsufficientPrivileges
  | LogHttpError int
  | LogConnectionRefused
  | LogConnectionReset
  | LogHostNotFound
  | LogTransportError string
  | LogNvrUnavailable
  | LogParseFailed
  | LogNoCameras
  | LogConnected ProtectNvrInfo
  | LogDiscovered ProtectCameraConfig
  | DebugRemoved ProtectCameraConfig
  | DebugInspectBootstrap
  | DebugInspectDevice ProtectCameraConfig
  | DebugListenerUrl string
  | DebugPayload string
  | LogAdminRequired
  | LogRoleChange bool
  | LogEventsConnected
  | LogEventsConnectError
  | LogSocketError string
  | LogRtspForbidden ProtectCameraConfig
  | LogRtspFailed ProtectCameraConfig int
  | LogConfigureFailed ProtectCameraConfig int

text \<open>
  The lines that announce a device: a discovered one (line 306) or a removed one (line
  323).
\<close>

fun isDeviceLine :: "event \<Rightarrow> bool" where
  "isDeviceLine (LogDiscovered c) = True"
| "isDeviceLine (DebugRemoved c) = True"
| "isDeviceLine e = False"

text \<open>
  An object that a method can be called on as \<open>this\<close>: the client, or a socket
  (by its index in the store of sockets).
\<close>

datatype objref = ApiObj | SockObj nat

text \<open>
  A \<open>WebSocket\<close> of the ws library. JavaScript objects take new properties on
  assignment, so a socket also has the three properties that
  \<open>heartbeatEventListener\<close> writes on its \<open>this\<close>.
\<close>

record WebSocket =
  ws_url :: string
  terminated :: bool
  ws_eventHeartbeatTimer :: "nat option"
  ws_eventListener :: "nat option"
  ws_eventListenerConfigured :: "bool option"

record Agent =
  keepAlive :: bool

text \<open>
  The constants of \<open>./settings\<close> (a file that is not part of the sources at hand)
  and the constructor's arguments are parameters of every method.
\<close>

record config =
  PROTECT_API_ERROR_LIMIT :: int
  PROTECT_API_RETRY_INTERVAL :: int
  PROTECT_EVENTS_HEARTBEAT_INTERVAL :: int
  PROTECT_LOGIN_REFRESH_INTERVAL :: int
  nvrAddress :: string
  username :: string
  password :: string

text \<open>
  The state: the fields of \<open>ProtectApi\<close>, then the world around it. \<open>clock\<close> is what
  \<open>Date.now()\<close> returns; \<open>network n\<close> is the outcome of the \<open>n\<close>-th request sent
  (counting from 0) and the milliseconds it takes; \<open>requests\<close> lists the requests
  sent so far, \<open>events\<close> the lines logged so far; \<open>sockets\<close> is the store of the
  sockets created, \<open>timers\<close> the pending timeouts (handle, deadline, and the object
  the callback captured as \<open>self\<close>).
\<close>

record state =
  apiErrorCount :: int
  apiLastSuccess :: int
  bootstrap :: "ProtectNvrBootstrap option"
  Cameras :: "ProtectCameraConfig list option"
  eventHeartbeatTimer :: "nat option"
  eventListener :: "nat option"
  eventListenerConfigured :: bool
  headers :: Headers
  httpsAgent :: Agent
  isAdminUser :: bool
  isUnifiOs :: bool
  loggedIn :: bool
  loginAge :: int
  clock :: int
  network :: "nat \<Rightarrow> nat \<times> net_outcome"
  requests :: "Request list"
  events :: "event list"
  sockets :: "WebSocket list"
  timers :: "(nat \<times> int \<times> objref) list"
  nextTimer :: nat

text \<open>
  What a method can throw: a \<open>TypeError\<close> (a property read on \<open>null\<close> or
  \<open>undefined\<close>), or the error of \<open>response.json()\<close> on a body that is not JSON.
\<close>

datatype exn = TypeError | InvalidJson

datatype 'a outcome = Returned 'a | Thrown exn

section \<open>The transport governor: fetch\<close>

definition logEvent :: "event \<Rightarrow> state \<Rightarrow> state" where
  "logEvent e s = s\<lparr>events := events s @ [e]\<rparr>"

text \<open>
  The call of node-fetch at line 604: the request goes out, the clock moves on by the
  time the answer takes, and the promise settles.
\<close>

definition nodeFetch :: "Request \<Rightarrow> state \<Rightarrow> net_outcome \<times> state" where
  "nodeFetch req s =
     (case network s (length (requests s)) of
        (elapsed, out) \<Rightarrow>
          (out, s\<lparr>requests := requests s @ [req], clock := clock s + int elapsed\<rparr>))"

text \<open>The \<open>catch\<close> clause of \<open>fetch\<close> (lines 635 to 659).\<close>

definition fetchCatch :: "bool \<Rightarrow> string \<Rightarrow> state \<Rightarrow> state" where
  "fetchCatch logErrors code s =
     (let s1 = s\<lparr>apiErrorCount := apiErrorCount s + 1\<rparr> in
      if code = ''ECONNREFUSED'' then logEvent LogConnectionRefused s1
      else if code = ''ECONNRESET'' then logEvent LogConnectionReset s1
      else if code = ''ENOTFOUND'' then logEvent LogHostNotFound s1
      else if logErrors then logEvent (LogTransportError code) s1
      else s1)"

text \<open>
  Lines 604 to 634: the network attempt and the decoding of its answer.
  \<open>None\<close> is the \<open>null\<close> that \<open>fetch\<close> returns for a failure.
\<close>

definition fetchAttempt :: "Request \<Rightarrow> bool \<Rightarrow> bool \<Rightarrow> state \<Rightarrow> Response option \<times> state" where
  "fetchAttempt req logErrors decodeResponse s =
     (case nodeFetch req s of
        (Rejects code, s1) \<Rightarrow> (None, fetchCatch logErrors code s1)
      | (Resolves response, s1) \<Rightarrow>
          if \<not> decodeResponse then (Some response, s1)
          else if status response = 401 then
            (None, (logEvent LogInvalidCredentials s1)\<lparr>apiErrorCount := apiErrorCount s1 + 1\<rparr>)
          else if status response = 403 then
            (None, logEvent LogInsufficientPrivileges (s1\<lparr>apiErrorCount := apiErrorCount s1 + 1\<rparr>))
          else if \<not> ok response then
            (None, logEvent (LogHttpError (status response)) (s1\<lparr>apiErrorCount := apiErrorCount s1 + 1\<rparr>))
          else (Some response, s1\<lparr>apiLastSuccess := clock s1, apiErrorCount := 0\<rparr>))"

text \<open>
  \<open>fetch\<close> (lines 573 to 660). \<open>now\<close> is read once, before the throttle is
  consulted.
\<close>

definition fetch :: "config \<Rightarrow> Request \<Rightarrow> bool \<Rightarrow> bool \<Rightarrow> state \<Rightarrow> Response option \<times> state" where
  "fetch cfg req logErrors decodeResponse s =
     (let now = clock s in
      if apiErrorCount s \<ge> PROTECT_API_ERROR_LIMIT cfg then
        if apiErrorCount s = PROTECT_API_ERROR_LIMIT cfg then
          (None, (logEvent (LogThrottling (apiErrorCount s)) s)
                   \<lparr>apiErrorCount := apiErrorCount s + 1, apiLastSuccess := now\<rparr>)
        else if apiLastSuccess s + PROTECT_API_RETRY_INTERVAL cfg * 1000 > now then
          (None, s)
        else
          fetchAttempt req logErrors decodeResponse ((logEvent LogResuming s)\<lparr>apiErrorCount := 0\<rparr>)
      else fetchAttempt req logErrors decodeResponse s)"

section \<open>Session: credentials, device type, login\<close>

definition newHeaders :: Headers where
  "newHeaders = [''Content-Type'' \<mapsto> ''application/json'']"

text \<open>\<open>terminate()\<close> on the socket stored at index \<open>a\<close>.\<close>

definition terminate :: "nat \<Rightarrow> state \<Rightarrow> state" where
  "terminate a s =
     (if a < length (sockets s)
      then s\<lparr>sockets := (sockets s)[a := (sockets s ! a)\<lparr>terminated := True\<rparr>]\<rparr>
      else s)"

text \<open>\<open>clearLoginCredentials\<close> (lines 549 to 570).\<close>

definition clearLoginCredentials :: "state \<Rightarrow> state" where
  "clearLoginCredentials s =
     (let s1 = s\<lparr>isAdminUser := False, isUnifiOs := False, loggedIn := False,
                  loginAge := 0, bootstrap := None\<rparr>;
          s2 = (case eventListener s1 of None \<Rightarrow> s1 | Some a \<Rightarrow> terminate a s1)
      in s2\<lparr>eventListener := None, eventListenerConfigured := False,
              headers := newHeaders, httpsAgent := \<lparr>keepAlive = False\<rparr>\<rparr>)"

text \<open>
  The constructor (lines 59 to 69), for a given network and a given time: the fields
  not yet assigned are \<open>undefined\<close>.
\<close>

definition newProtectApi :: "(nat \<Rightarrow> nat \<times> net_outcome) \<Rightarrow> int \<Rightarrow> state" where
  "newProtectApi net t =
     clearLoginCredentials
       \<lparr>apiErrorCount = 0, apiLastSuccess = 0, bootstrap = None, Cameras = None,
        eventHeartbeatTimer = None, eventListener = None, eventListenerConfigured = False,
        headers = Map.empty, httpsAgent = \<lparr>keepAlive = False\<rparr>, isAdminUser = False,
        isUnifiOs = False, loggedIn = False, loginAge = 0, clock = t, network = net,
        requests = [], events = [], sockets = [], timers = [], nextTimer = 0\<rparr>"

definition camerasUrl :: "config \<Rightarrow> state \<Rightarrow> string" where
  "camerasUrl cfg s =
     ''https://'' @ nvrAddress cfg @
       (if isUnifiOs s then ''/proxy/protect/api/cameras'' else '':7443/api/cameras'')"

definition authUrl :: "config \<Rightarrow> state \<Rightarrow> string" where
  "authUrl cfg s =
     ''https://'' @ nvrAddress cfg @ (if isUnifiOs s then ''/api/auth/login'' else '':7443/api/auth'')"

definition bootstrapUrl :: "config \<Rightarrow> state \<Rightarrow> string" where
  "bootstrapUrl cfg s =
     ''https://'' @ nvrAddress cfg @
       (if isUnifiOs s then ''/proxy/protect/api/bootstrap'' else '':7443/api/bootstrap'')"

definition systemEventsUrl :: "config \<Rightarrow> state \<Rightarrow> string" where
  "systemEventsUrl cfg s =
     (if \<not> isUnifiOs s then [] else ''wss://'' @ nvrAddress cfg @ ''/api/ws/system'')"

text \<open>
  \<open>response?.ok\<close> on what \<open>fetch\<close> returned, and the truth value of a header read
  with \<open>get\<close> (a missing header is \<open>null\<close>, and the empty string is falsy too).
\<close>

definition okOpt :: "Response option \<Rightarrow> bool" where
  "okOpt response = (case response of None \<Rightarrow> False | Some r \<Rightarrow> ok r)"

definition truthy :: "string option \<Rightarrow> bool" where
  "truthy v = (case v of None \<Rightarrow> False | Some x \<Rightarrow> x \<noteq> [])"

text \<open>The two requests of \<open>acquireToken\<close> (lines 82 and 99).\<close>

definition probeRoot :: "config \<Rightarrow> Request" where
  "probeRoot cfg =
     \<lparr>req_method = ''GET'', req_url = ''https://'' @ nvrAddress cfg, req_body = NoBody\<rparr>"

definition probeCloudKey :: "config \<Rightarrow> Request" where
  "probeCloudKey cfg =
     \<lparr>req_method = ''GET'', req_url = ''https://'' @ nvrAddress cfg @ '':7443/'',
      req_body = NoBody\<rparr>"

text \<open>
  The test of lines 84 to 88 on the answer of the first request: it is there, it is
  \<open>ok\<close>, and it carries a token that is not empty.
\<close>

definition hasCsrfToken :: "Response option \<Rightarrow> bool" where
  "hasCsrfToken response =
     (okOpt response \<and> truthy (resp_headers (the response) ''X-CSRF-Token''))"

text \<open>\<open>acquireToken\<close> (lines 72 to 108).\<close>

definition acquireToken :: "config \<Rightarrow> state \<Rightarrow> bool \<times> state" where
  "acquireToken cfg s =
     (if loggedIn s \<or> headers s ''X-CSRF-Token'' \<noteq> None \<or> headers s ''Authorization'' \<noteq> None
      then (True, s)
      else
        case fetch cfg (probeRoot cfg) False True s of
          (response, s1) \<Rightarrow>
            if hasCsrfToken response then
              (True, s1\<lparr>headers := (headers s1)(''X-CSRF-Token'' :=
                                        resp_headers (the response) ''X-CSRF-Token''),
                        isUnifiOs := True,
                        httpsAgent := \<lparr>keepAlive = True\<rparr>\<rparr>)
            else
              case fetch cfg (probeCloudKey cfg) False True s1 of
                (response2, s2) \<Rightarrow> if okOpt response2 then (True, s2) else (False, s2))"

text \<open>
  The headers the login sets from the answer of the authentication endpoint (lines 145
  to 166), after \<open>loggedIn\<close> and \<open>loginAge\<close> have been written.
\<close>

definition loginHeaders :: "Response \<Rightarrow> state \<Rightarrow> bool \<times> state" where
  "loginHeaders response s =
     (let csrfToken = resp_headers response ''X-CSRF-Token'';
          cookie = resp_headers response ''Set-Cookie''
      in if truthy csrfToken \<and> truthy cookie \<and> headers s ''X-CSRF-Token'' \<noteq> None then
           (True, s\<lparr>headers := (headers s)(''Cookie'' := cookie, ''X-CSRF-Token'' := csrfToken)\<rparr>)
         else
           let authToken = resp_headers response ''Authorization'' in
           if truthy authToken then
             (True, s\<lparr>headers := (headers s)(''Authorization'' \<mapsto> ''Bearer '' @ the authToken)\<rparr>)
           else (False, clearLoginCredentials s))"

text \<open>
  The renewal of the credentials at the start of \<open>loginProtect\<close> (lines 114 to 119),
  and the request it sends to log in (lines 132 to 135).
\<close>

definition renewCredentials :: "config \<Rightarrow> state \<Rightarrow> state" where
  "renewCredentials cfg s =
     (if clock s > loginAge s + PROTECT_LOGIN_REFRESH_INTERVAL cfg * 1000
      then s\<lparr>loggedIn := False, headers := newHeaders\<rparr> else s)"

definition authRequest :: "config \<Rightarrow> state \<Rightarrow> Request" where
  "authRequest cfg s =
     \<lparr>req_method = ''POST'', req_url = authUrl cfg s,
      req_body = LoginBody (username cfg) (password cfg)\<rparr>"

text \<open>\<open>loginProtect\<close> (lines 111 to 167).\<close>

definition loginProtect :: "config \<Rightarrow> state \<Rightarrow> bool \<times> state" where
  "loginProtect cfg s =
     (let now = clock s;
          s0 = renewCredentials cfg s
      in if loggedIn s0 then (True, s0)
         else
           case acquireToken cfg s0 of
             (False, s1) \<Rightarrow> (False, s1)
           | (True, s1) \<Rightarrow>
               (case fetch cfg (authRequest cfg s1) True True s1 of
                  (response, s2) \<Rightarrow>
                    if \<not> okOpt response then (False, s2)
                    else loginHeaders (the response) (s2\<lparr>loggedIn := True, loginAge := now\<rparr>)))"

section \<open>The realtime events listener\<close>

definition clearTimeout :: "nat option \<Rightarrow> state \<Rightarrow> state" where
  "clearTimeout h s =
     (case h of
        None \<Rightarrow> s
      | Some t \<Rightarrow> s\<lparr>timers := filter (\<lambda>(i, deadline, self). i \<noteq> t) (timers s)\<rparr>)"

definition setTimeout :: "objref \<Rightarrow> int \<Rightarrow> state \<Rightarrow> nat \<times> state" where
  "setTimeout self delay s =
     (nextTimer s,
      s\<lparr>timers := timers s @ [(nextTimer s, clock s + delay, self)], nextTimer := Suc (nextTimer s)\<rparr>)"

text \<open>
  The three properties that \<open>heartbeatEventListener\<close> and its timeout read and write,
  on the object they run on.
\<close>

fun get_eventHeartbeatTimer :: "objref \<Rightarrow> state \<Rightarrow> nat option" where
  "get_eventHeartbeatTimer ApiObj s = eventHeartbeatTimer s"
| "get_eventHeartbeatTimer (SockObj a) s =
     (if a < length (sockets s) then ws_eventHeartbeatTimer (sockets s ! a) else None)"

fun set_eventHeartbeatTimer :: "objref \<Rightarrow> nat option \<Rightarrow> state \<Rightarrow> state" where
  "set_eventHeartbeatTimer ApiObj h s = s\<lparr>eventHeartbeatTimer := h\<rparr>"
| "set_eventHeartbeatTimer (SockObj a) h s =
     (if a < length (sockets s)
      then s\<lparr>sockets := (sockets s)[a := (sockets s ! a)\<lparr>ws_eventHeartbeatTimer := h\<rparr>]\<rparr>
      else s)"

fun get_eventListener :: "objref \<Rightarrow> state \<Rightarrow> nat option" where
  "get_eventListener ApiObj s = eventListener s"
| "get_eventListener (SockObj a) s =
     (if a < length (sockets s) then ws_eventListener (sockets s ! a) else None)"

fun set_eventListener :: "objref \<Rightarrow> nat option \<Rightarrow> state \<Rightarrow> state" where
  "set_eventListener ApiObj l s = s\<lparr>eventListener := l\<rparr>"
| "set_eventListener (SockObj a) l s =
     (if a < length (sockets s)
      then s\<lparr>sockets := (sockets s)[a := (sockets s ! a)\<lparr>ws_eventListener := l\<rparr>]\<rparr>
      else s)"

fun set_eventListenerConfigured :: "objref \<Rightarrow> bool \<Rightarrow> state \<Rightarrow> state" where
  "set_eventListenerConfigured ApiObj b s = s\<lparr>eventListenerConfigured := b\<rparr>"
| "set_eventListenerConfigured (SockObj a) b s =
     (if a < length (sockets s)
      then s\<lparr>sockets := (sockets s)[a := (sockets s ! a)\<lparr>ws_eventListenerConfigured := Some b\<rparr>]\<rparr>
      else s)"

text \<open>
  The callback that \<open>heartbeatEventListener\<close> hands to \<open>setTimeout\<close> (lines 541 to
  545); \<open>self\<close> is the \<open>this\<close> that \<open>heartbeatEventListener\<close> ran on.
\<close>

definition heartbeatTimeout :: "objref \<Rightarrow> state \<Rightarrow> state" where
  "heartbeatTimeout self s =
     (let s1 = (case get_eventListener self s of None \<Rightarrow> s | Some a \<Rightarrow> terminate a s);
          s2 = set_eventListener self None s1
      in set_eventListenerConfigured self False s2)"

text \<open>\<open>heartbeatEventListener\<close> (lines 535 to 546), called on the object \<open>this\<close>.\<close>

definition heartbeatEventListener :: "config \<Rightarrow> objref \<Rightarrow> state \<Rightarrow> state" where
  "heartbeatEventListener cfg this s =
     (let self = this;
          s1 = clearTimeout (get_eventHeartbeatTimer this s) s
      in case setTimeout self (PROTECT_EVENTS_HEARTBEAT_INTERVAL cfg * 1000) s1 of
           (h, s2) \<Rightarrow> set_eventHeartbeatTimer this (Some h) s2)"

text \<open>
  The handlers that \<open>launchEventListener\<close> registers on the socket (lines 256 to 271).
  The ws library is an \<open>EventEmitter\<close>: it calls a listener with the emitter, that is
  the socket, as \<open>this\<close>. \<open>open\<close> and \<open>ping\<close> are given the method
  \<open>this.heartbeatEventListener\<close> itself, not bound to the client, so it runs on the
  socket; \<open>close\<close> and \<open>error\<close> are given arrow functions, whose \<open>this\<close> is the client.
\<close>

definition onOpen :: "config \<Rightarrow> nat \<Rightarrow> state \<Rightarrow> state" where
  "onOpen cfg a s = heartbeatEventListener cfg (SockObj a) s"

definition onPing :: "config \<Rightarrow> nat \<Rightarrow> state \<Rightarrow> state" where
  "onPing cfg a s = heartbeatEventListener cfg (SockObj a) s"

definition onClose :: "nat \<Rightarrow> state \<Rightarrow> state" where
  "onClose a s = clearTimeout (eventHeartbeatTimer s) s"

definition onError :: "nat \<Rightarrow> string \<Rightarrow> state \<Rightarrow> state" where
  "onError a message s =
     (let s1 = (if message \<noteq> ''WebSocket was closed before the connection was established''
                then logEvent (LogSocketError message) s else s);
          s2 = (case eventListener s1 of None \<Rightarrow> s1 | Some b \<Rightarrow> terminate b s1)
      in s2\<lparr>eventListener := None, eventListenerConfigured := False\<rparr>)"

text \<open>
  Time passes until \<open>t\<close>: the timeouts that are due run, in the order they were set.
\<close>

definition elapse :: "int \<Rightarrow> state \<Rightarrow> state" where
  "elapse t s =
     foldl (\<lambda>st (h, deadline, self). heartbeatTimeout self st)
       (s\<lparr>clock := max (clock s) t,
          timers := filter (\<lambda>(h, deadline, self). \<not> deadline \<le> t) (timers s)\<rparr>)
       (filter (\<lambda>(h, deadline, self). deadline \<le> t) (timers s))"

text \<open>
  \<open>launchEventListener\<close> (lines 225 to 279). \<open>new WebSocket\<close> throws on the empty
  address that \<open>systemEventsUrl\<close> gives for a device that is not UniFi OS, and the
  \<open>catch\<close> clause logs it; the test \<open>!ws\<close> on a new object is never true.
\<close>

definition launchEventListener :: "config \<Rightarrow> state \<Rightarrow> bool \<times> state" where
  "launchEventListener cfg s =
     (case loginProtect cfg s of
        (False, s1) \<Rightarrow> (False, s1)
      | (True, s1) \<Rightarrow>
          if eventListener s1 \<noteq> None then (True, s1)
          else
            let s2 = logEvent (DebugListenerUrl (systemEventsUrl cfg s1)) s1 in
            if systemEventsUrl cfg s2 = [] then (True, logEvent LogEventsConnectError s2)
            else
              let ws = \<lparr>ws_url = systemEventsUrl cfg s2, terminated = False,
                        ws_eventHeartbeatTimer = None, ws_eventListener = None,
                        ws_eventListenerConfigured = None\<rparr>;
                  s3 = s2\<lparr>sockets := sockets s2 @ [ws], eventListener := Some (length (sockets s2))\<rparr>
              in (True, logEvent LogEventsConnected s3))"

section \<open>Bootstrap, admin status and the list of devices\<close>

text \<open>
  \<open>String.prototype.split\<close> with a separator of one character; \<open>cur\<close> is the field
  read so far.
\<close>

fun splitOn :: "char \<Rightarrow> string \<Rightarrow> string \<Rightarrow> string list" where
  "splitOn c cur [] = [cur]"
| "splitOn c cur (x # xs) = (if x = c then cur # splitOn c [] xs else splitOn c (cur @ [x]) xs)"

definition split_str :: "char \<Rightarrow> string \<Rightarrow> string list" where
  "split_str c str = splitOn c [] str"

text \<open>
  The loop over \<open>user.allPermissions\<close> (lines 359 to 377); its value is
  \<open>newAdminStatus\<close>. \<open>permType[1].split\<close> throws when the entry has no second
  field.
\<close>

fun scanPermissions :: "string list \<Rightarrow> bool outcome" where
  "scanPermissions [] = Returned False"
| "scanPermissions (entry # rest) =
     (case split_str CHR '':'' entry of
        [] \<Rightarrow> scanPermissions rest
      | t0 # others \<Rightarrow>
          if t0 \<noteq> ''camera'' then scanPermissions rest
          else
            (case others of
               [] \<Rightarrow> Thrown TypeError
             | t1 # _ \<Rightarrow>
                 if ''write'' \<in> set (split_str CHR '','' t1) then Returned True
                 else scanPermissions rest))"

text \<open>\<open>checkAdminUserStatus\<close> (lines 343 to 391).\<close>

definition checkAdminUserStatus :: "config \<Rightarrow> bool \<Rightarrow> state \<Rightarrow> bool outcome \<times> state" where
  "checkAdminUserStatus cfg firstRun s =
     (case bootstrap s of
        None \<Rightarrow> (Returned False, s)
      | Some b \<Rightarrow>
          (case users b of
             None \<Rightarrow> (Returned False, s)
           | Some us \<Rightarrow>
               let oldAdminStatus = isAdminUser s in
               (case find (\<lambda>x. user_id x = authUserId b) us of
                  None \<Rightarrow> (Returned False, s)
                | Some user \<Rightarrow>
                    (case allPermissions user of
                       None \<Rightarrow> (Returned False, s)
                     | Some perms \<Rightarrow>
                         (case scanPermissions perms of
                            Thrown e \<Rightarrow> (Thrown e, s)
                          | Returned newAdminStatus \<Rightarrow>
                              let s1 = s\<lparr>isAdminUser := newAdminStatus\<rparr> in
                              if firstRun \<and> \<not> isAdminUser s1 then
                                (Returned True, logEvent LogAdminRequired s1)
                              else if \<not> firstRun \<and> oldAdminStatus \<noteq> isAdminUser s1 then
                                (Returned True, logEvent (LogRoleChange (isAdminUser s1)) s1)
                              else (Returned True, s1))))))"

text \<open>The request of \<open>bootstrapProtect\<close> (line 176).\<close>

definition bootstrapRequest :: "config \<Rightarrow> state \<Rightarrow> Request" where
  "bootstrapRequest cfg s =
     \<lparr>req_method = ''GET'', req_url = bootstrapUrl cfg s, req_body = NoBody\<rparr>"

text \<open>
  The \<open>data\<close> of \<open>bootstrapProtect\<close> when the test \<open>data?.cameras\<close> of line 198
  passes: the body is a bootstrap object with a list of cameras. A body that is not
  JSON leaves \<open>data\<close> at \<open>null\<close> (the \<open>catch\<close> of lines 192 to 195).
\<close>

definition decodeBootstrap :: "body_t \<Rightarrow> ProtectNvrBootstrap option" where
  "decodeBootstrap b =
     (case b of
        Parsed (JBootstrap data) \<Rightarrow> (case cameras data of None \<Rightarrow> None | Some cs \<Rightarrow> Some data)
      | _ \<Rightarrow> None)"

text \<open>
  Lines 206 to 221 of \<open>bootstrapProtect\<close>, once the answer has been fetched and
  parsed. On the first run the log line reads \<open>data.nvr.host\<close>, which throws when the
  body has no \<open>nvr\<close>.
\<close>

definition storeBootstrap :: "config \<Rightarrow> ProtectNvrBootstrap \<Rightarrow> state \<Rightarrow> bool outcome \<times> state" where
  "storeBootstrap cfg data s =
     (let firstRun = (bootstrap s = None);
          s1 = s\<lparr>bootstrap := Some data\<rparr>
      in
      if firstRun \<and> nvr data = None then (Thrown TypeError, s1)
      else
        let s2 = (if firstRun then logEvent (LogConnected (the (nvr data))) s1 else s1);
            s3 = logEvent DebugInspectBootstrap s2
        in
        (case checkAdminUserStatus cfg firstRun s3 of
           (Thrown e, s4) \<Rightarrow> (Thrown e, s4)
         | (Returned r, s4) \<Rightarrow>
             if isUnifiOs s4 then
               (case launchEventListener cfg s4 of (b, s5) \<Rightarrow> (Returned b, s5))
             else (Returned True, s4)))"

text \<open>\<open>bootstrapProtect\<close> (lines 170 to 222).\<close>

definition bootstrapProtect :: "config \<Rightarrow> state \<Rightarrow> bool outcome \<times> state" where
  "bootstrapProtect cfg s =
     (case loginProtect cfg s of
        (False, s1) \<Rightarrow> (Returned False, s1)
      | (True, s1) \<Rightarrow>
          (case fetch cfg (bootstrapRequest cfg s1) True True s1 of
             (response, s2) \<Rightarrow>
               if \<not> okOpt response then
                 (Returned False, clearLoginCredentials (logEvent LogNvrUnavailable s2))
               else
                 let s3 = (case body (the response) of
                             Unparseable \<Rightarrow> logEvent LogParseFailed s2
                           | Parsed j \<Rightarrow> s2)
                 in
                 (case decodeBootstrap (body (the response)) of
                    None \<Rightarrow> (Returned False, clearLoginCredentials (logEvent LogNoCameras s3))
                  | Some data \<Rightarrow> storeBootstrap cfg data s3)))"

text \<open>
  The two loops of \<open>refreshDevices\<close> over the lists of devices (lines 293 to 311 and
  314 to 328), as the lines they write. \<open>known\<close> is \<open>this.Cameras\<close>, which is
  \<open>undefined\<close> until the first refresh.
\<close>

fun discoveredEvents :: "ProtectCameraConfig list option \<Rightarrow> ProtectCameraConfig list \<Rightarrow> event list" where
  "discoveredEvents known [] = []"
| "discoveredEvents known (newDevice # rest) =
     (if (case known of None \<Rightarrow> False | Some cs \<Rightarrow> list_ex (\<lambda>x. mac x = mac newDevice) cs)
      then discoveredEvents known rest
      else if \<not> isManaged newDevice then discoveredEvents known rest
      else LogDiscovered newDevice # DebugInspectDevice newDevice # discoveredEvents known rest)"

fun removedEvents :: "ProtectCameraConfig list option \<Rightarrow> ProtectCameraConfig list \<Rightarrow> event list" where
  "removedEvents newDeviceList [] = []"
| "removedEvents newDeviceList (existingDevice # rest) =
     (if (case newDeviceList of
            None \<Rightarrow> False
          | Some cs \<Rightarrow> list_ex (\<lambda>x. mac x = mac existingDevice) cs)
      then removedEvents newDeviceList rest
      else DebugRemoved existingDevice # DebugInspectDevice existingDevice
             # removedEvents newDeviceList rest)"

text \<open>
  \<open>refreshDevices\<close> (lines 282 to 333). \<open>this.bootstrap.cameras\<close> throws when the
  snapshot is \<open>null\<close>.
\<close>

definition refreshDevices :: "config \<Rightarrow> state \<Rightarrow> bool outcome \<times> state" where
  "refreshDevices cfg s =
     (case bootstrapProtect cfg s of
        (Thrown e, s1) \<Rightarrow> (Thrown e, s1)
      | (Returned False, s1) \<Rightarrow> (Returned False, s1)
      | (Returned True, s1) \<Rightarrow>
          let s2 = logEvent DebugInspectBootstrap s1 in
          (case bootstrap s2 of
             None \<Rightarrow> (Thrown TypeError, s2)
           | Some b \<Rightarrow>
               let newDeviceList = cameras b;
                   s3 = (case newDeviceList of
                           None \<Rightarrow> s2
                         | Some ds \<Rightarrow> s2\<lparr>events := events s2 @ discoveredEvents (Cameras s2) ds\<rparr>);
                   s4 = (case Cameras s3 of
                           None \<Rightarrow> s3
                         | Some cs \<Rightarrow> s3\<lparr>events := events s3 @ removedEvents newDeviceList cs\<rparr>)
               in (Returned True, s4\<lparr>Cameras := newDeviceList\<rparr>)))"

text \<open>
  \<open>isAllRtspConfigured\<close> (lines 336 to 340): \<open>None\<close> is the \<open>undefined\<close> that the
  optional chain gives without a snapshot or without a list of cameras.
\<close>

definition isAllRtspConfigured :: "state \<Rightarrow> bool option" where
  "isAllRtspConfigured s =
     (case bootstrap s of
        None \<Rightarrow> None
      | Some b \<Rightarrow>
          (case cameras b of
             None \<Rightarrow> None
           | Some cs \<Rightarrow>
               Some (list_ex (\<lambda>camera.
                        case channels camera of
                          None \<Rightarrow> False
                        | Some chs \<Rightarrow> list_ex (\<lambda>channel. \<not> isRtspEnabled channel) chs) cs)))"

section \<open>Device actions\<close>

text \<open>
  What \<open>enableRtsp\<close> and \<open>updateCamera\<close> return: \<open>null\<close>, the device they were
  given, or the document the controller answered with.
\<close>

datatype device_result = Null | Device ProtectCameraConfig | Confirmed json

text \<open>
  \<open>enableRtsp\<close> (lines 394 to 447). The failure branch reads \<open>response.status\<close>,
  which throws when \<open>fetch\<close> returned \<open>null\<close>.
\<close>

definition enableRtsp :: "config \<Rightarrow> ProtectCameraConfig \<Rightarrow> state \<Rightarrow> device_result outcome \<times> state" where
  "enableRtsp cfg device s =
     (case loginProtect cfg s of
        (False, s1) \<Rightarrow> (Returned Null, s1)
      | (True, s1) \<Rightarrow>
          if \<not> isAdminUser s1 then (Returned Null, s1)
          else if modelKey device \<noteq> ''camera'' then (Returned Null, s1)
          else
            (case channels device of
               None \<Rightarrow> (Returned (Device device), s1)
             | Some chs \<Rightarrow>
                 if \<not> list_ex (\<lambda>channel. \<not> isRtspEnabled channel) chs then
                   (Returned (Device device), s1)
                 else
                   let chs' = map (\<lambda>channel. channel\<lparr>isRtspEnabled := True\<rparr>) chs;
                       device' = device\<lparr>channels := Some chs'\<rparr>
                   in
                   (case fetch cfg \<lparr>req_method = ''PATCH'',
                                    req_url = camerasUrl cfg s1 @ ''/'' @ cam_id device',
                                    req_body = ChannelsBody chs'\<rparr> True False s1 of
                      (response, s2) \<Rightarrow>
                        if \<not> okOpt response then
                          let s3 = s2\<lparr>apiErrorCount := apiErrorCount s2 + 1\<rparr> in
                          (case response of
                             None \<Rightarrow> (Thrown TypeError, s3)
                           | Some r \<Rightarrow>
                               if status r = 403 then
                                 (Returned (Device device'), logEvent (LogRtspForbidden device') s3)
                               else
                                 (Returned (Device device'),
                                  logEvent (LogRtspFailed device' (status r)) s3))
                        else
                          let s3 = s2\<lparr>apiErrorCount := 0, apiLastSuccess := clock s2\<rparr> in
                          (case body (the response) of
                             Unparseable \<Rightarrow> (Thrown InvalidJson, s3)
                           | Parsed j \<Rightarrow> (Returned (Confirmed j), s3)))))"

text \<open>
  \<open>updateCamera\<close> (lines 450 to 481); the payload is kept as its JSON text. The
  failure branch reads \<open>response.status\<close> as \<open>enableRtsp\<close> does.
\<close>

definition updateCamera :: "config \<Rightarrow> ProtectCameraConfig option \<Rightarrow> string \<Rightarrow> state \<Rightarrow> device_result outcome \<times> state" where
  "updateCamera cfg device payload s =
     (case device of
        None \<Rightarrow> (Returned Null, s)
      | Some dev \<Rightarrow>
          (case loginProtect cfg s of
             (False, s1) \<Rightarrow> (Returned Null, s1)
           | (True, s1) \<Rightarrow>
               if \<not> isAdminUser s1 then (Returned Null, s1)
               else
                 let s2 = logEvent (DebugPayload payload) s1 in
                 (case fetch cfg \<lparr>req_method = ''PATCH'',
                                  req_url = camerasUrl cfg s2 @ ''/'' @ cam_id dev,
                                  req_body = PayloadBody payload\<rparr> True True s2 of
                    (response, s3) \<Rightarrow>
                      if \<not> okOpt response then
                        (case response of
                           None \<Rightarrow> (Thrown TypeError, s3)
                         | Some r \<Rightarrow>
                             (Returned Null, logEvent (LogConfigureFailed dev (status r)) s3))
                      else
                        (case body (the response) of
                           Unparseable \<Rightarrow> (Thrown InvalidJson, s3)
                         | Parsed j \<Rightarrow> (Returned (Confirmed j), s3)))))"

section \<open>Sessions used as examples\<close>

text \<open>
  A configuration (an error limit of 10, a cooldown of 300 seconds, a heartbeat window of
  10 seconds, a login refresh interval of 1800 seconds), and a controller that refuses
  every connection.
\<close>

definition cfg0 :: config where
  "cfg0 = \<lparr>PROTECT_API_ERROR_LIMIT = 10, PROTECT_API_RETRY_INTERVAL = 300,
           PROTECT_EVENTS_HEARTBEAT_INTERVAL = 10, PROTECT_LOGIN_REFRESH_INTERVAL = 1800,
           nvrAddress = ''nvr'', username = ''user'', password = ''secret''\<rparr>"

definition unreachable :: "nat \<Rightarrow> nat \<times> net_outcome" where
  "unreachable n = (0, Rejects ''ECONNREFUSED'')"

definition getRoot :: Request where
  "getRoot = \<lparr>req_method = ''GET'', req_url = ''https://nvr'', req_body = NoBody\<rparr>"

text \<open>
  A new client after ten calls that the controller refused (\<open>atLimit\<close>), after one
  more call at the same time (\<open>cooling\<close>), and after the call made once 300 seconds
  have passed (\<open>afterProbe\<close>).
\<close>

definition fetchTimes :: "nat \<Rightarrow> state \<Rightarrow> state" where
  "fetchTimes n s = ((\<lambda>st. snd (fetch cfg0 getRoot True True st)) ^^ n) s"

definition atLimit :: state where
  "atLimit = fetchTimes 10 (newProtectApi unreachable 0)"

definition cooling :: state where
  "cooling = snd (fetch cfg0 getRoot True True atLimit)"

definition afterProbe :: state where
  "afterProbe = snd (fetch cfg0 getRoot True True (elapse 300000 cooling))"

text \<open>
  A UniFi OS controller with three cameras over time. Camera A has a channel without
  RTSP, camera B has RTSP on every channel; the user \<open>u1\<close> may write to cameras.
\<close>

definition camA :: ProtectCameraConfig where
  "camA = \<lparr>cam_id = ''a'', mac = ''AA'', modelKey = ''camera'', cam_name = ''A'',
           cam_type = ''UVC G3'', host = ''10.0.0.2'', isManaged = True,
           channels = Some [\<lparr>chan_id = 0, isRtspEnabled = False\<rparr>]\<rparr>"

definition camB :: ProtectCameraConfig where
  "camB = \<lparr>cam_id = ''b'', mac = ''BB'', modelKey = ''camera'', cam_name = ''B'',
           cam_type = ''UVC G3'', host = ''10.0.0.3'', isManaged = True,
           channels = Some [\<lparr>chan_id = 0, isRtspEnabled = True\<rparr>,
                            \<lparr>chan_id = 1, isRtspEnabled = True\<rparr>]\<rparr>"

definition camC :: ProtectCameraConfig where
  "camC = \<lparr>cam_id = ''c'', mac = ''CC'', modelKey = ''camera'', cam_name = ''C'',
           cam_type = ''UVC G4'', host = ''10.0.0.4'', isManaged = True,
           channels = Some [\<lparr>chan_id = 0, isRtspEnabled = True\<rparr>]\<rparr>"

definition nvr0 :: ProtectNvrInfo where
  "nvr0 = \<lparr>nvr_name = ''NVR'', nvr_type = ''UDM-Pro'', nvr_host = ''10.0.0.1'', nvr_mac = ''FF''\<rparr>"

definition firstBootstrap :: ProtectNvrBootstrap where
  "firstBootstrap =
     \<lparr>cameras = Some [camA, camB],
      users = Some [\<lparr>user_id = ''u1'',
                     allPermissions = Some [''nvr:read:all'', ''camera:read,write:all'']\<rparr>],
      authUserId = ''u1'', nvr = Some nvr0\<rparr>"

text \<open>
  A later snapshot: camera A is gone, camera C is new, and the list of users no longer
  has the record of \<open>u1\<close>.
\<close>

definition secondBootstrap :: ProtectNvrBootstrap where
  "secondBootstrap =
     \<lparr>cameras = Some [camB, camC], users = Some [], authUserId = ''u1'', nvr = Some nvr0\<rparr>"

definition okResponse :: "Headers \<Rightarrow> body_t \<Rightarrow> Response" where
  "okResponse h b = \<lparr>status = 200, resp_headers = h, body = b\<rparr>"

text \<open>
  The controller's answers, in the order of the requests, each after 5 milliseconds:
  a token on the bare address, a token and a cookie for the login, the first snapshot,
  then the outcomes listed in \<open>later\<close>; after those it refuses every connection.
\<close>

definition session :: "net_outcome list \<Rightarrow> nat \<Rightarrow> nat \<times> net_outcome" where
  "session later n =
     (if n = 0 then (5, Resolves (okResponse [''X-CSRF-Token'' \<mapsto> ''t0''] (Parsed JOther)))
      else if n = 1 then
        (5, Resolves (okResponse [''X-CSRF-Token'' \<mapsto> ''t1'', ''Set-Cookie'' \<mapsto> ''c1'']
                        (Parsed JOther)))
      else if n = 2 then (5, Resolves (okResponse Map.empty (Parsed (JBootstrap firstBootstrap))))
      else if n - 3 < length later then (5, later ! (n - 3))
      else (5, Rejects ''ECONNREFUSED''))"

text \<open>
  The client after its first login, after its first refresh of the devices, and after a
  second refresh that is answered with the later snapshot.
\<close>

definition firstLogin :: "net_outcome list \<Rightarrow> state" where
  "firstLogin later = snd (loginProtect cfg0 (newProtectApi (session later) 0))"

definition firstSync :: "net_outcome list \<Rightarrow> state" where
  "firstSync later = snd (refreshDevices cfg0 (newProtectApi (session later) 0))"

definition secondSync :: state where
  "secondSync =
     snd (refreshDevices cfg0
            (firstSync [Resolves (okResponse Map.empty (Parsed (JBootstrap secondBootstrap)))]))"

text \<open>
  A Cloud Key controller: nothing answers on the bare address, the port 7443 does.
\<close>

definition cloudKey :: "nat \<Rightarrow> nat \<times> net_outcome" where
  "cloudKey n =
     (if n = 0 then (5, Rejects ''ECONNREFUSED'')
      else (5, Resolves (okResponse Map.empty (Parsed JOther))))"

text \<open>
  The renewal of the login, 2000 seconds after the first refresh, when the bare address
  resets the connection and the port 7443 answers: the state that \<open>loginProtect\<close>
  hands to \<open>acquireToken\<close>.
\<close>

definition renewing :: state where
  "renewing =
     renewCredentials cfg0
       (elapse 2000000
          (firstSync [Rejects ''ECONNRESET'', Resolves (okResponse Map.empty (Parsed JOther))]))"

text \<open>
  The answers of the controller to a renewal of the login: a new token on the bare
  address, then a new token and a new cookie.
\<close>

definition renewedAnswers :: "net_outcome list" where
  "renewedAnswers =
     [Resolves (okResponse [''X-CSRF-Token'' \<mapsto> ''t2''] (Parsed JOther)),
      Resolves (okResponse [''X-CSRF-Token'' \<mapsto> ''t3'', ''Set-Cookie'' \<mapsto> ''c3''] (Parsed JOther))]"

text \<open>
  Answers of a controller in trouble: a 503, and a 200 whose body is not JSON.
\<close>

definition unavailable :: net_outcome where
  "unavailable = Resolves \<lparr>status = 503, resp_headers = Map.empty, body = Unparseable\<rparr>"

definition malformed :: net_outcome where
  "malformed = Resolves (okResponse Map.empty Unparseable)"

text \<open>
  A client whose snapshot gives the user \<open>u1\<close> the permissions \<open>perms\<close>, and a
  snapshot whose only permission entry has no second field.
\<close>

definition withPermissions :: "string list \<Rightarrow> state" where
  "withPermissions perms =
     (newProtectApi unreachable 0)
       \<lparr>bootstrap := Some \<lparr>cameras = Some [],
                            users = Some [\<lparr>user_id = ''u1'', allPermissions = Some perms\<rparr>],
                            authUserId = ''u1'', nvr = Some nvr0\<rparr>\<rparr>"

definition badPermissions :: ProtectNvrBootstrap where
  "badPermissions =
     firstBootstrap\<lparr>users := Some [\<lparr>user_id = ''u1'', allPermissions = Some [''camera'']\<rparr>]\<rparr>"

section \<open>Properties\<close>

subsection \<open>Evaluation of the examples\<close>

lemma cfg0_simps:
  "PROTECT_API_ERROR_LIMIT cfg0 = 10" "PROTECT_API_RETRY_INTERVAL cfg0 = 300"
  "PROTECT_EVENTS_HEARTBEAT_INTERVAL cfg0 = 10" "PROTECT_LOGIN_REFRESH_INTERVAL cfg0 = 1800"
  "nvrAddress cfg0 = ''nvr''" "username cfg0 = ''user''" "password cfg0 = ''secret''"
  by (simp_all add: cfg0_def)

lemmas governor_defs = fetch_def fetchAttempt_def nodeFetch_def fetchCatch_def logEvent_def

lemma newProtectApi_simps:
  "network (newProtectApi net t) = net" "apiErrorCount (newProtectApi net t) = 0"
  "requests (newProtectApi net t) = []" "clock (newProtectApi net t) = t"
  "timers (newProtectApi net t) = []" "apiLastSuccess (newProtectApi net t) = 0"
  "loggedIn (newProtectApi net t) = False" "isUnifiOs (newProtectApi net t) = False"
  "isAdminUser (newProtectApi net t) = False" "bootstrap (newProtectApi net t) = None"
  "Cameras (newProtectApi net t) = None" "headers (newProtectApi net t) = newHeaders"
  "loginAge (newProtectApi net t) = 0" "eventListener (newProtectApi net t) = None"
  "sockets (newProtectApi net t) = []" "events (newProtectApi net t) = []"
  by (simp_all add: newProtectApi_def clearLoginCredentials_def Let_def)

lemma clearLoginCredentials_simps:
  "isAdminUser (clearLoginCredentials s) = False" "isUnifiOs (clearLoginCredentials s) = False"
  "loggedIn (clearLoginCredentials s) = False" "loginAge (clearLoginCredentials s) = 0"
  "bootstrap (clearLoginCredentials s) = None" "eventListener (clearLoginCredentials s) = None"
  "eventListenerConfigured (clearLoginCredentials s) = False"
  "headers (clearLoginCredentials s) = newHeaders"
  "httpsAgent (clearLoginCredentials s) = \<lparr>keepAlive = False\<rparr>"
  "Cameras (clearLoginCredentials s) = Cameras s" "network (clearLoginCredentials s) = network s"
  "requests (clearLoginCredentials s) = requests s" "events (clearLoginCredentials s) = events s"
  "clock (clearLoginCredentials s) = clock s"
  "apiErrorCount (clearLoginCredentials s) = apiErrorCount s"
  "apiLastSuccess (clearLoginCredentials s) = apiLastSuccess s"
  "timers (clearLoginCredentials s) = timers s"
  "length (sockets (clearLoginCredentials s)) = length (sockets s)"
  by (simp_all add: clearLoginCredentials_def terminate_def Let_def split: option.splits)

lemmas api_defs = governor_defs newHeaders_def terminate_def clearLoginCredentials_def
  newProtectApi_def camerasUrl_def authUrl_def bootstrapUrl_def systemEventsUrl_def okOpt_def
  truthy_def probeRoot_def probeCloudKey_def hasCsrfToken_def acquireToken_def loginHeaders_def
  renewCredentials_def authRequest_def loginProtect_def launchEventListener_def split_str_def
  checkAdminUserStatus_def bootstrapRequest_def decodeBootstrap_def storeBootstrap_def
  bootstrapProtect_def refreshDevices_def ok_def

lemmas example_defs = cfg0_def camA_def camB_def camC_def nvr0_def firstBootstrap_def
  secondBootstrap_def okResponse_def session_def

lemma firstLogin_result: "fst (loginProtect cfg0 (newProtectApi (session later) 0)) = True"
  by (simp add: api_defs example_defs Let_def)

lemma firstLogin_simps:
  "loggedIn (firstLogin later)" "loginAge (firstLogin later) = 0" "clock (firstLogin later) = 10"
  "isUnifiOs (firstLogin later)" "apiErrorCount (firstLogin later) = 0"
  "network (firstLogin later) = session later"
  "map req_method (requests (firstLogin later)) = [''GET'', ''POST'']"
  "headers (firstLogin later) ''X-CSRF-Token'' = Some ''t1''"
  "headers (firstLogin later) ''Cookie'' = Some ''c1''"
  "headers (firstLogin later) ''Authorization'' = None"
  "timers (firstLogin later) = []"
  by (simp_all add: firstLogin_def api_defs example_defs Let_def)

lemma firstSync_result: "fst (refreshDevices cfg0 (newProtectApi (session later) 0)) = Returned True"
  by (simp add: api_defs example_defs Let_def)

lemma firstSync_simps:
  "loggedIn (firstSync later)" "loginAge (firstSync later) = 0" "clock (firstSync later) = 15"
  "isUnifiOs (firstSync later)" "apiErrorCount (firstSync later) = 0"
  "network (firstSync later) = session later"
  "length (requests (firstSync later)) = 3"
  "timers (firstSync later) = []" "nextTimer (firstSync later) = 0"
  "isAdminUser (firstSync later)" "eventListener (firstSync later) = Some 0"
  "bootstrap (firstSync later) = Some firstBootstrap"
  "Cameras (firstSync later) = Some [camA, camB]"
  "sockets (firstSync later) = [\<lparr>ws_url = ''wss://nvr/api/ws/system'', terminated = False,
      ws_eventHeartbeatTimer = None, ws_eventListener = None,
      ws_eventListenerConfigured = None\<rparr>]"
  "eventHeartbeatTimer (firstSync later) = None"
  "keepAlive (httpsAgent (firstSync later))"
  by (simp_all add: firstSync_def api_defs example_defs Let_def)

subsection \<open>The transport governor\<close>

lemma fetch_at_limit:
  "apiErrorCount s = PROTECT_API_ERROR_LIMIT cfg \<Longrightarrow>
   fetch cfg req le dr s =
     (None, (logEvent (LogThrottling (apiErrorCount s)) s)
              \<lparr>apiErrorCount := PROTECT_API_ERROR_LIMIT cfg + 1, apiLastSuccess := clock s\<rparr>)"
  by (simp add: fetch_def)

lemma fetch_cooldown:
  "PROTECT_API_ERROR_LIMIT cfg < apiErrorCount s \<Longrightarrow>
   clock s < apiLastSuccess s + PROTECT_API_RETRY_INTERVAL cfg * 1000 \<Longrightarrow>
   fetch cfg req le dr s = (None, s)"
  by (simp add: fetch_def)

lemma fetch_probe:
  "PROTECT_API_ERROR_LIMIT cfg < apiErrorCount s \<Longrightarrow>
   \<not> clock s < apiLastSuccess s + PROTECT_API_RETRY_INTERVAL cfg * 1000 \<Longrightarrow>
   fetch cfg req le dr s =
     fetchAttempt req le dr ((logEvent LogResuming s)\<lparr>apiErrorCount := 0\<rparr>)"
  by (simp add: fetch_def)

lemma fetch_open:
  "apiErrorCount s < PROTECT_API_ERROR_LIMIT cfg \<Longrightarrow>
   fetch cfg req le dr s = fetchAttempt req le dr s"
  by (simp add: fetch_def)

lemma fetchAttempt_requests:
  "requests (snd (fetchAttempt req le dr s)) = requests s @ [req]"
  by (simp add: fetchAttempt_def nodeFetch_def fetchCatch_def logEvent_def Let_def
      split: prod.splits net_outcome.splits)

lemma fetchAttempt_count:
  "(case fst (fetchAttempt req le True s) of
      None \<Rightarrow> apiErrorCount (snd (fetchAttempt req le True s)) = apiErrorCount s + 1
    | Some r \<Rightarrow> ok r \<and> apiErrorCount (snd (fetchAttempt req le True s)) = 0
        \<and> apiLastSuccess (snd (fetchAttempt req le True s)) = clock (snd (fetchAttempt req le True s)))"
  by (simp add: fetchAttempt_def nodeFetch_def fetchCatch_def logEvent_def Let_def
      split: prod.splits net_outcome.splits)

lemma refused_attempt:
  "network s = unreachable \<Longrightarrow>
   fetchAttempt req True True s =
     (None, s\<lparr>requests := requests s @ [req], clock := clock s,
              apiErrorCount := apiErrorCount s + 1,
              events := events s @ [LogConnectionRefused]\<rparr>)"
  by (simp add: governor_defs unreachable_def Let_def)

lemma atLimit_simps:
  "apiErrorCount atLimit = 10" "length (requests atLimit) = 10" "clock atLimit = 0"
  "timers atLimit = []" "network atLimit = unreachable"
  by (simp_all add: atLimit_def fetchTimes_def numeral_eq_Suc fetch_open refused_attempt
      newProtectApi_simps cfg0_simps)

lemma cooling_simps:
  "apiErrorCount cooling = 11" "length (requests cooling) = 10" "clock cooling = 0"
  "timers cooling = []" "network cooling = unreachable" "apiLastSuccess cooling = 0"
  by (simp_all add: cooling_def fetch_at_limit atLimit_simps cfg0_simps logEvent_def)

lemma elapsed_cooling_simps:
  "apiErrorCount (elapse 300000 cooling) = 11" "length (requests (elapse 300000 cooling)) = 10"
  "clock (elapse 300000 cooling) = 300000" "network (elapse 300000 cooling) = unreachable"
  "apiLastSuccess (elapse 300000 cooling) = 0"
  by (simp_all add: elapse_def cooling_simps)

lemma afterProbe_simps:
  "apiErrorCount afterProbe = 1" "length (requests afterProbe) = 11"
  "network afterProbe = unreachable"
  by (simp_all add: afterProbe_def fetch_probe elapsed_cooling_simps refused_attempt
      cfg0_simps logEvent_def)

lemma fetchAttempt_frame:
  "fetchAttempt req le dr s = (r, s') \<Longrightarrow>
     bootstrap s' = bootstrap s \<and> Cameras s' = Cameras s \<and> network s' = network s
     \<and> isUnifiOs s' = isUnifiOs s \<and> loggedIn s' = loggedIn s \<and> loginAge s' = loginAge s
     \<and> headers s' = headers s \<and> httpsAgent s' = httpsAgent s \<and> isAdminUser s' = isAdminUser s
     \<and> eventListener s' = eventListener s \<and> sockets s' = sockets s \<and> timers s' = timers s
     \<and> eventListenerConfigured s' = eventListenerConfigured s
     \<and> requests s' = requests s @ [req] \<and> clock s \<le> clock s'
     \<and> filter isDeviceLine (events s') = filter isDeviceLine (events s)"
  by (auto simp: fetchAttempt_def nodeFetch_def fetchCatch_def logEvent_def Let_def
      split: prod.splits net_outcome.splits if_splits)

lemma fetch_frame:
  "fetch cfg req le dr s = (r, s') \<Longrightarrow>
     bootstrap s' = bootstrap s \<and> Cameras s' = Cameras s \<and> network s' = network s
     \<and> isUnifiOs s' = isUnifiOs s \<and> loggedIn s' = loggedIn s \<and> loginAge s' = loginAge s
     \<and> headers s' = headers s \<and> httpsAgent s' = httpsAgent s \<and> isAdminUser s' = isAdminUser s
     \<and> eventListener s' = eventListener s \<and> sockets s' = sockets s \<and> timers s' = timers s
     \<and> eventListenerConfigured s' = eventListenerConfigured s
     \<and> (requests s' = requests s \<or> requests s' = requests s @ [req]) \<and> clock s \<le> clock s'
     \<and> filter isDeviceLine (events s') = filter isDeviceLine (events s)"
  unfolding fetch_def Let_def
  by (auto simp: logEvent_def split: if_splits dest!: fetchAttempt_frame)

lemma fetchAttempt_Some:
  "fetchAttempt req le True s = (Some r, s') \<Longrightarrow>
     ok r \<and> (\<exists>d. network s (length (requests s)) = (d, Resolves r)) \<and> apiErrorCount s' = 0"
  by (auto simp: fetchAttempt_def nodeFetch_def fetchCatch_def logEvent_def Let_def
      split: prod.splits net_outcome.splits if_splits)

lemma fetch_Some:
  "fetch cfg req le True s = (Some r, s') \<Longrightarrow>
     ok r \<and> (\<exists>d. network s (length (requests s)) = (d, Resolves r))
     \<and> requests s' = requests s @ [req] \<and> apiErrorCount s' = 0"
  unfolding fetch_def Let_def
  by (auto simp: logEvent_def split: if_splits dest: fetchAttempt_Some fetchAttempt_frame)

text \<open>
  Claim C1, as the specification states it, fails: after the cooldown the governor sets
  the error count to zero before the call is attempted, so a probe that fails leaves the
  count at 1 (not at the threshold), and the very next call goes to the network again
  instead of being rejected for another cooldown. Here the controller refuses every
  connection: ten calls reach the limit (10 requests sent), the eleventh is rejected
  locally, the call after 300 seconds is sent (11 requests) and fails, and the call
  right after it is sent as well (12 requests).
\<close>

theorem fetch_failed_probe_counterexample:
  "apiErrorCount atLimit = 10 \<and> length (requests atLimit) = 10
   \<and> apiErrorCount cooling = 11 \<and> length (requests cooling) = 10
   \<and> fst (fetch cfg0 getRoot True True (elapse 300000 cooling)) = None
   \<and> apiErrorCount afterProbe = 1 \<and> length (requests afterProbe) = 11
   \<and> fst (fetch cfg0 getRoot True True afterProbe) = None
   \<and> length (requests (snd (fetch cfg0 getRoot True True afterProbe))) = 12"
  by (simp add: atLimit_simps cooling_simps afterProbe_simps elapsed_cooling_simps
      fetch_probe fetch_open refused_attempt cfg0_simps logEvent_def)

text \<open>
  Claim C1, amended to what \<open>fetch\<close> does. With \<open>L\<close> the error limit and \<open>R\<close> the
  retry interval of the settings:
  \<^item> a call made when the error count equals \<open>L\<close> is rejected locally (it returns
    \<open>null\<close> and sends nothing), raises the count to \<open>L + 1\<close> and starts the cooldown at
    that moment;
  \<^item> a call made when the count is above \<open>L\<close> and less than \<open>R\<close> seconds have passed
    since then is rejected locally and changes nothing at all;
  \<^item> the first call made when the count is above \<open>L\<close> and the cooldown has elapsed
    sets the count to zero and is sent; if its answer is decoded, the count is 0 after
    a success and 1 after a failure;
  \<^item> a call made when the count is below \<open>L\<close> is sent; if its answer is decoded, a
    success sets the count to zero (and records the time), a failure adds one to it.
\<close>

theorem fetch_governor:
  "(apiErrorCount s = PROTECT_API_ERROR_LIMIT cfg \<longrightarrow>
      fetch cfg req le dr s =
        (None, (logEvent (LogThrottling (apiErrorCount s)) s)
                 \<lparr>apiErrorCount := PROTECT_API_ERROR_LIMIT cfg + 1, apiLastSuccess := clock s\<rparr>))
   \<and> (PROTECT_API_ERROR_LIMIT cfg < apiErrorCount s
        \<and> clock s < apiLastSuccess s + PROTECT_API_RETRY_INTERVAL cfg * 1000 \<longrightarrow>
      fetch cfg req le dr s = (None, s))
   \<and> (PROTECT_API_ERROR_LIMIT cfg < apiErrorCount s
        \<and> \<not> clock s < apiLastSuccess s + PROTECT_API_RETRY_INTERVAL cfg * 1000 \<longrightarrow>
      requests (snd (fetch cfg req le dr s)) = requests s @ [req]
      \<and> (case fst (fetch cfg req le True s) of
            None \<Rightarrow> apiErrorCount (snd (fetch cfg req le True s)) = 1
          | Some r \<Rightarrow> ok r \<and> apiErrorCount (snd (fetch cfg req le True s)) = 0))
   \<and> (apiErrorCount s < PROTECT_API_ERROR_LIMIT cfg \<longrightarrow>
      requests (snd (fetch cfg req le dr s)) = requests s @ [req]
      \<and> (case fst (fetch cfg req le True s) of
            None \<Rightarrow> apiErrorCount (snd (fetch cfg req le True s)) = apiErrorCount s + 1
          | Some r \<Rightarrow> ok r \<and> apiErrorCount (snd (fetch cfg req le True s)) = 0
              \<and> apiLastSuccess (snd (fetch cfg req le True s))
                  = clock (snd (fetch cfg req le True s))))"
proof (intro conjI impI)
  assume "apiErrorCount s = PROTECT_API_ERROR_LIMIT cfg"
  then show "fetch cfg req le dr s =
        (None, (logEvent (LogThrottling (apiErrorCount s)) s)
                 \<lparr>apiErrorCount := PROTECT_API_ERROR_LIMIT cfg + 1, apiLastSuccess := clock s\<rparr>)"
    by (rule fetch_at_limit)
next
  assume "PROTECT_API_ERROR_LIMIT cfg < apiErrorCount s
        \<and> clock s < apiLastSuccess s + PROTECT_API_RETRY_INTERVAL cfg * 1000"
  then show "fetch cfg req le dr s = (None, s)"
    by (simp add: fetch_cooldown)
next
  assume a: "PROTECT_API_ERROR_LIMIT cfg < apiErrorCount s
        \<and> \<not> clock s < apiLastSuccess s + PROTECT_API_RETRY_INTERVAL cfg * 1000"
  then show "requests (snd (fetch cfg req le dr s)) = requests s @ [req]"
    by (simp add: fetch_probe fetchAttempt_requests logEvent_def)
  from a have e: "fetch cfg req le True s =
      fetchAttempt req le True ((logEvent LogResuming s)\<lparr>apiErrorCount := 0\<rparr>)"
    by (simp add: fetch_probe)
  show "case fst (fetch cfg req le True s) of
            None \<Rightarrow> apiErrorCount (snd (fetch cfg req le True s)) = 1
          | Some r \<Rightarrow> ok r \<and> apiErrorCount (snd (fetch cfg req le True s)) = 0"
    using fetchAttempt_count [of req le "(logEvent LogResuming s)\<lparr>apiErrorCount := 0\<rparr>"]
    unfolding e by (simp split: option.splits)
next
  assume a: "apiErrorCount s < PROTECT_API_ERROR_LIMIT cfg"
  then show "requests (snd (fetch cfg req le dr s)) = requests s @ [req]"
    by (simp add: fetch_open fetchAttempt_requests)
  show "case fst (fetch cfg req le True s) of
            None \<Rightarrow> apiErrorCount (snd (fetch cfg req le True s)) = apiErrorCount s + 1
          | Some r \<Rightarrow> ok r \<and> apiErrorCount (snd (fetch cfg req le True s)) = 0
              \<and> apiLastSuccess (snd (fetch cfg req le True s))
                  = clock (snd (fetch cfg req le True s))"
    unfolding fetch_open [OF a] by (rule fetchAttempt_count)
qed

text \<open>
  The four cases of the amended claim C1 on the example: a new client (count 0 below the
  limit), the client at the limit, the client in its cooldown, and the client after
  the cooldown.
\<close>

theorem fetch_governor_witness:
  "apiErrorCount (newProtectApi unreachable 0) < PROTECT_API_ERROR_LIMIT cfg0
   \<and> apiErrorCount (snd (fetch cfg0 getRoot True True (newProtectApi unreachable 0))) = 1
   \<and> apiErrorCount atLimit = PROTECT_API_ERROR_LIMIT cfg0
   \<and> fst (fetch cfg0 getRoot True True atLimit) = None
   \<and> requests (snd (fetch cfg0 getRoot True True atLimit)) = requests atLimit
   \<and> PROTECT_API_ERROR_LIMIT cfg0 < apiErrorCount cooling
   \<and> clock cooling < apiLastSuccess cooling + PROTECT_API_RETRY_INTERVAL cfg0 * 1000
   \<and> fetch cfg0 getRoot True True cooling = (None, cooling)
   \<and> PROTECT_API_ERROR_LIMIT cfg0 < apiErrorCount (elapse 300000 cooling)
   \<and> \<not> clock (elapse 300000 cooling)
         < apiLastSuccess (elapse 300000 cooling) + PROTECT_API_RETRY_INTERVAL cfg0 * 1000
   \<and> requests (snd (fetch cfg0 getRoot True True (elapse 300000 cooling)))
       = requests (elapse 300000 cooling) @ [getRoot]
   \<and> apiErrorCount (snd (fetch cfg0 getRoot True True (elapse 300000 cooling))) = 1"
  using fetch_governor [of "newProtectApi unreachable 0" cfg0 getRoot True True]
    fetch_governor [of atLimit cfg0 getRoot True True]
    fetch_governor [of cooling cfg0 getRoot True True]
    fetch_governor [of "elapse 300000 cooling" cfg0 getRoot True True]
  by (simp add: newProtectApi_simps atLimit_simps cooling_simps elapsed_cooling_simps
      cfg0_simps fetch_open fetch_probe refused_attempt logEvent_def)

subsection \<open>Device detection and login: what each step changes\<close>

lemma acquireToken_frame:
  assumes "acquireToken cfg s = (b, s')"
  shows "bootstrap s' = bootstrap s \<and> Cameras s' = Cameras s \<and> network s' = network s
     \<and> loggedIn s' = loggedIn s \<and> loginAge s' = loginAge s \<and> isAdminUser s' = isAdminUser s
     \<and> eventListener s' = eventListener s \<and> sockets s' = sockets s \<and> timers s' = timers s
     \<and> eventListenerConfigured s' = eventListenerConfigured s
     \<and> (\<exists>probes. requests s' = requests s @ probes \<and> list_all (\<lambda>p. req_method p = ''GET'') probes)
     \<and> clock s \<le> clock s'
     \<and> filter isDeviceLine (events s') = filter isDeviceLine (events s)"
proof (cases "loggedIn s \<or> headers s ''X-CSRF-Token'' \<noteq> None \<or> headers s ''Authorization'' \<noteq> None")
  case True
  then have "s' = s" using assms by (simp add: acquireToken_def)
  then show ?thesis by simp
next
  case False
  obtain r1 s1 where f1: "fetch cfg (probeRoot cfg) False True s = (r1, s1)"
    by (cases "fetch cfg (probeRoot cfg) False True s")
  obtain r2 s2 where f2: "fetch cfg (probeCloudKey cfg) False True s1 = (r2, s2)"
    by (cases "fetch cfg (probeCloudKey cfg) False True s1")
  note fr1 = fetch_frame [OF f1] and fr2 = fetch_frame [OF f2]
  have m: "req_method (probeRoot cfg) = ''GET''" "req_method (probeCloudKey cfg) = ''GET''"
    by (simp_all add: probeRoot_def probeCloudKey_def)
  show ?thesis
  proof (cases "hasCsrfToken r1")
    case True
    then have "s' = s1\<lparr>headers := (headers s1)(''X-CSRF-Token'' := resp_headers (the r1) ''X-CSRF-Token''),
                        isUnifiOs := True, httpsAgent := \<lparr>keepAlive = True\<rparr>\<rparr>"
      using assms False f1 unfolding acquireToken_def by simp
    then show ?thesis using fr1 m by auto
  next
    case F2: False
    then have "s' = s2"
      using assms False f1 f2 unfolding acquireToken_def by (simp split: if_splits)
    then show ?thesis using fr1 fr2 m by auto
  qed
qed

lemma loginHeaders_frame:
  "loginHeaders r s = (b, s') \<Longrightarrow>
     Cameras s' = Cameras s \<and> network s' = network s \<and> requests s' = requests s
     \<and> clock s' = clock s \<and> timers s' = timers s \<and> events s' = events s
     \<and> (bootstrap s' = bootstrap s \<or> bootstrap s' = None)
     \<and> (b \<longrightarrow> bootstrap s' = bootstrap s \<and> loggedIn s' = loggedIn s \<and> loginAge s' = loginAge s
            \<and> isAdminUser s' = isAdminUser s \<and> isUnifiOs s' = isUnifiOs s
            \<and> eventListener s' = eventListener s \<and> sockets s' = sockets s
            \<and> httpsAgent s' = httpsAgent s)
     \<and> (\<not> b \<longrightarrow> \<not> loggedIn s' \<and> bootstrap s' = None)"
  unfolding loginHeaders_def Let_def
  by (auto simp: clearLoginCredentials_simps split: if_splits)

lemma loginProtect_fresh:
  "loggedIn s \<Longrightarrow> \<not> clock s > loginAge s + PROTECT_LOGIN_REFRESH_INTERVAL cfg * 1000 \<Longrightarrow>
   loginProtect cfg s = (True, s)"
  by (simp add: loginProtect_def renewCredentials_def)

lemma loginProtect_cases:
  assumes "loginProtect cfg s = (b, s')"
  obtains (noop) "loggedIn (renewCredentials cfg s)" "b" "s' = renewCredentials cfg s"
  | (noToken) "\<not> loggedIn (renewCredentials cfg s)" "\<not> b"
      "acquireToken cfg (renewCredentials cfg s) = (False, s')"
  | (authFailed) s1 r where "\<not> loggedIn (renewCredentials cfg s)" "\<not> b"
      "acquireToken cfg (renewCredentials cfg s) = (True, s1)"
      "fetch cfg (authRequest cfg s1) True True s1 = (r, s')" "\<not> okOpt r"
  | (authOk) s1 r s2 where "\<not> loggedIn (renewCredentials cfg s)"
      "acquireToken cfg (renewCredentials cfg s) = (True, s1)"
      "fetch cfg (authRequest cfg s1) True True s1 = (Some r, s2)" "ok r"
      "loginHeaders r (s2\<lparr>loggedIn := True, loginAge := clock s\<rparr>) = (b, s')"
  using assms unfolding loginProtect_def Let_def
  by (auto simp: okOpt_def split: if_splits prod.splits bool.splits option.splits)

lemma renewCredentials_simps:
  "requests (renewCredentials cfg s) = requests s" "network (renewCredentials cfg s) = network s"
  "Cameras (renewCredentials cfg s) = Cameras s" "bootstrap (renewCredentials cfg s) = bootstrap s"
  "clock (renewCredentials cfg s) = clock s" "isAdminUser (renewCredentials cfg s) = isAdminUser s"
  "eventListener (renewCredentials cfg s) = eventListener s" "sockets (renewCredentials cfg s) = sockets s"
  "timers (renewCredentials cfg s) = timers s" "apiErrorCount (renewCredentials cfg s) = apiErrorCount s"
  "isUnifiOs (renewCredentials cfg s) = isUnifiOs s" "loginAge (renewCredentials cfg s) = loginAge s"
  "events (renewCredentials cfg s) = events s"
  by (simp_all add: renewCredentials_def)

lemma loginProtect_frame:
  assumes "loginProtect cfg s = (b, s')"
  shows "Cameras s' = Cameras s \<and> network s' = network s \<and> clock s \<le> clock s'
     \<and> timers s' = timers s
     \<and> filter isDeviceLine (events s') = filter isDeviceLine (events s)
     \<and> (bootstrap s' = bootstrap s \<or> bootstrap s' = None)
     \<and> (b \<longrightarrow> bootstrap s' = bootstrap s \<and> loggedIn s' \<and> isAdminUser s' = isAdminUser s
            \<and> eventListener s' = eventListener s \<and> sockets s' = sockets s)"
  using assms
proof (cases rule: loginProtect_cases)
  case noop
  then show ?thesis by (simp add: renewCredentials_simps)
next
  case noToken
  then show ?thesis using acquireToken_frame [OF noToken(3)] by (simp add: renewCredentials_simps)
next
  case (authFailed s1 r)
  then show ?thesis using acquireToken_frame [OF authFailed(3)] fetch_frame [OF authFailed(4)]
    by (simp add: renewCredentials_simps)
next
  case (authOk s1 r s2)
  then show ?thesis using acquireToken_frame [OF authOk(2)] fetch_frame [OF authOk(3)]
      loginHeaders_frame [OF authOk(5)]
    by (auto simp add: renewCredentials_simps)
qed

lemma loginProtect_authenticates:
  assumes "loginProtect cfg s = (True, s')"
    and "\<not> (loggedIn s \<and> \<not> clock s > loginAge s + PROTECT_LOGIN_REFRESH_INTERVAL cfg * 1000)"
  shows "\<exists>probes auth. requests s' = requests s @ probes @ [auth]
            \<and> list_all (\<lambda>p. req_method p = ''GET'') probes \<and> req_method auth = ''POST''
            \<and> (\<exists>d r. network s (length (requests s @ probes)) = (d, Resolves r) \<and> ok r)"
    and "loggedIn s'" and "loginAge s' = clock s"
proof -
  have n0: "\<not> loggedIn (renewCredentials cfg s)"
    using assms(2) by (auto simp: renewCredentials_def)
  from assms(1) n0 obtain s1 r s2 where
    a: "acquireToken cfg (renewCredentials cfg s) = (True, s1)"
    and f: "fetch cfg (authRequest cfg s1) True True s1 = (Some r, s2)"
    and h: "loginHeaders r (s2\<lparr>loggedIn := True, loginAge := clock s\<rparr>) = (True, s')"
    by (cases rule: loginProtect_cases) auto
  from acquireToken_frame [OF a] obtain probes where
    p: "requests s1 = requests s @ probes" "list_all (\<lambda>p. req_method p = ''GET'') probes"
      "network s1 = network s"
    by (auto simp: renewCredentials_simps)
  from fetch_Some [OF f] have q: "requests s2 = requests s1 @ [authRequest cfg s1]"
      and okr: "ok r" and nr: "\<exists>d. network s1 (length (requests s1)) = (d, Resolves r)" by auto
  from loginHeaders_frame [OF h] have l: "requests s' = requests s2" "loggedIn s'" "loginAge s' = clock s"
    by auto
  have "requests s' = requests s @ probes @ [authRequest cfg s1]" using p q l by simp
  moreover have "req_method (authRequest cfg s1) = ''POST''" by (simp add: authRequest_def)
  moreover have "\<exists>d r. network s (length (requests s @ probes)) = (d, Resolves r) \<and> ok r"
    using nr okr p by auto
  ultimately show "\<exists>probes auth. requests s' = requests s @ probes @ [auth]
            \<and> list_all (\<lambda>p. req_method p = ''GET'') probes \<and> req_method auth = ''POST''
            \<and> (\<exists>d r. network s (length (requests s @ probes)) = (d, Resolves r) \<and> ok r)"
    using p(2) by blast
  show "loggedIn s'" "loginAge s' = clock s" using l by auto
qed

lemma loginProtect_stale_failure:
  assumes "clock s > loginAge s + PROTECT_LOGIN_REFRESH_INTERVAL cfg * 1000"
    and "loginProtect cfg s = (False, s')"
  shows "\<not> loggedIn s'"
proof -
  have n0: "\<not> loggedIn (renewCredentials cfg s)"
    using assms(1) by (auto simp: renewCredentials_def)
  from assms(2) show ?thesis
  proof (cases rule: loginProtect_cases)
    case noop
    then show ?thesis by simp
  next
    case noToken
    then show ?thesis using acquireToken_frame [OF noToken(3)] by simp
  next
    case (authFailed s1 r)
    then show ?thesis using acquireToken_frame [OF authFailed(3)] fetch_frame [OF authFailed(4)]
      by simp
  next
    case (authOk s1 r s2)
    then show ?thesis using loginHeaders_frame [OF authOk(5)] by simp
  qed
qed

lemma acquireToken_attempts:
  assumes "\<not> loggedIn s" "headers s ''X-CSRF-Token'' = None" "headers s ''Authorization'' = None"
    "apiErrorCount s < PROTECT_API_ERROR_LIMIT cfg" "acquireToken cfg s = (b, s')"
  shows "length (requests s) < length (requests s')"
proof -
  obtain r1 s1 where f1: "fetch cfg (probeRoot cfg) False True s = (r1, s1)"
    by (cases "fetch cfg (probeRoot cfg) False True s")
  obtain r2 s2 where f2: "fetch cfg (probeCloudKey cfg) False True s1 = (r2, s2)"
    by (cases "fetch cfg (probeCloudKey cfg) False True s1")
  have a1: "requests s1 = requests s @ [probeRoot cfg]"
    using f1 assms(4) fetchAttempt_frame [of "probeRoot cfg" False True s r1 s1] by (simp add: fetch_open)
  have "s' = s1\<lparr>headers := (headers s1)(''X-CSRF-Token'' := resp_headers (the r1) ''X-CSRF-Token''),
                        isUnifiOs := True, httpsAgent := \<lparr>keepAlive = True\<rparr>\<rparr> \<or> s' = s2"
    using assms f1 f2 unfolding acquireToken_def by (auto split: if_splits)
  then show ?thesis using a1 fetch_frame [OF f2] by auto
qed

lemma loginProtect_stale_attempts:
  assumes "clock s > loginAge s + PROTECT_LOGIN_REFRESH_INTERVAL cfg * 1000"
    and "apiErrorCount s < PROTECT_API_ERROR_LIMIT cfg"
    and "loginProtect cfg s = (b, s')"
  shows "length (requests s) < length (requests s')"
proof -
  have n0: "\<not> loggedIn (renewCredentials cfg s)" "headers (renewCredentials cfg s) ''X-CSRF-Token'' = None"
    "headers (renewCredentials cfg s) ''Authorization'' = None"
    using assms(1) by (auto simp: renewCredentials_def newHeaders_def)
  have c: "apiErrorCount (renewCredentials cfg s) < PROTECT_API_ERROR_LIMIT cfg"
    using assms(2) by (simp add: renewCredentials_simps)
  from assms(3) show ?thesis
  proof (cases rule: loginProtect_cases)
    case noop
    then show ?thesis using n0 by simp
  next
    case noToken
    then show ?thesis using acquireToken_attempts [OF n0 c noToken(3)] by (simp add: renewCredentials_simps)
  next
    case (authFailed s1 r)
    then show ?thesis using acquireToken_attempts [OF n0 c authFailed(3)] fetch_frame [OF authFailed(4)]
      by (auto simp add: renewCredentials_simps)
  next
    case (authOk s1 r s2)
    then show ?thesis using acquireToken_attempts [OF n0 c authOk(2)] fetch_frame [OF authOk(3)]
        loginHeaders_frame [OF authOk(5)]
      by (auto simp add: renewCredentials_simps)
  qed
qed

lemma acquireToken_detected_count:
  assumes "\<not> loggedIn s" "headers s ''X-CSRF-Token'' = None" "headers s ''Authorization'' = None"
    and "acquireToken cfg s = (True, s1)"
  shows "apiErrorCount s1 = 0"
proof -
  obtain r1 s1' where f1: "fetch cfg (probeRoot cfg) False True s = (r1, s1')"
    by (cases "fetch cfg (probeRoot cfg) False True s")
  obtain r2 s2 where f2: "fetch cfg (probeCloudKey cfg) False True s1' = (r2, s2)"
    by (cases "fetch cfg (probeCloudKey cfg) False True s1'")
  show ?thesis
  proof (cases "hasCsrfToken r1")
    case True
    then obtain r where "r1 = Some r" by (cases r1) (auto simp: hasCsrfToken_def okOpt_def)
    then have "apiErrorCount s1' = 0" using fetch_Some [of cfg "probeRoot cfg" False s r s1'] f1 by simp
    then show ?thesis using assms f1 True unfolding acquireToken_def by auto
  next
    case False
    then have "okOpt r2" and s: "s1 = s2"
      using assms f1 f2 unfolding acquireToken_def by (auto split: if_splits)
    then obtain r where "r2 = Some r" by (cases r2) (auto simp: okOpt_def)
    then have "apiErrorCount s2 = 0"
      using fetch_Some [of cfg "probeCloudKey cfg" False s1' r s2] f2 by simp
    then show ?thesis using s by simp
  qed
qed

lemma loginProtect_stale_reauthenticates:
  assumes st: "clock s > loginAge s + PROTECT_LOGIN_REFRESH_INTERVAL cfg * 1000"
    and lim: "0 < PROTECT_API_ERROR_LIMIT cfg"
    and det: "acquireToken cfg (renewCredentials cfg s) = (True, s1)"
  shows "\<exists>probes. requests (snd (loginProtect cfg s)) = requests s @ probes @ [authRequest cfg s1]
           \<and> list_all (\<lambda>p. req_method p = ''GET'') probes"
proof -
  have n0: "\<not> loggedIn (renewCredentials cfg s)" "headers (renewCredentials cfg s) ''X-CSRF-Token'' = None"
    "headers (renewCredentials cfg s) ''Authorization'' = None"
    using st by (auto simp: renewCredentials_def newHeaders_def)
  have c: "apiErrorCount s1 = 0" by (rule acquireToken_detected_count [OF n0 det])
  from acquireToken_frame [OF det] obtain probes where
    p: "requests s1 = requests s @ probes" "list_all (\<lambda>p. req_method p = ''GET'') probes"
    by (auto simp: renewCredentials_simps)
  obtain r s2 where f: "fetch cfg (authRequest cfg s1) True True s1 = (r, s2)"
    by (cases "fetch cfg (authRequest cfg s1) True True s1")
  have q: "requests s2 = requests s1 @ [authRequest cfg s1]"
    using f c lim fetchAttempt_frame [of "authRequest cfg s1" True True s1 r s2]
    by (simp add: fetch_open)
  obtain b s' where l: "loginProtect cfg s = (b, s')" by (cases "loginProtect cfg s")
  have "requests s' = requests s2"
  proof (cases "okOpt r")
    case False
    then show ?thesis using l n0 det f unfolding loginProtect_def Let_def by simp
  next
    case True
    then have "loginHeaders (the r) (s2\<lparr>loggedIn := True, loginAge := clock s\<rparr>) = (b, s')"
      using l n0 det f unfolding loginProtect_def Let_def by simp
    from loginHeaders_frame [OF this] show ?thesis by simp
  qed
  then show ?thesis using p q l by simp
qed

subsection \<open>Evaluation of the example sessions\<close>

lemma elapse_no_timers: "timers s = [] \<Longrightarrow> elapse t s = s\<lparr>clock := max (clock s) t, timers := []\<rparr>"
  by (simp add: elapse_def)

lemma secondSync_result:
  "fst (refreshDevices cfg0
          (firstSync [Resolves (okResponse Map.empty (Parsed (JBootstrap secondBootstrap)))]))
     = Returned True"
  by (simp add: api_defs example_defs Let_def firstSync_simps)

lemma secondSync_simps:
  "isAdminUser secondSync" "bootstrap secondSync = Some secondBootstrap"
  "Cameras secondSync = Some [camB, camC]" "loggedIn secondSync" "clock secondSync = 20"
  "loginAge secondSync = 0" "apiErrorCount secondSync = 0"
  "length (requests secondSync) = 4"
  "events secondSync =
     events (firstSync [Resolves (okResponse Map.empty (Parsed (JBootstrap secondBootstrap)))])
       @ [DebugInspectBootstrap, DebugInspectBootstrap, LogDiscovered camC, DebugInspectDevice camC,
          DebugRemoved camA, DebugInspectDevice camA]"
  by (simp_all add: secondSync_def api_defs example_defs Let_def firstSync_simps)

lemma renewing_simps:
  "\<not> loggedIn renewing" "headers renewing ''X-CSRF-Token'' = None"
  "headers renewing ''Authorization'' = None" "isUnifiOs renewing"
  "apiErrorCount renewing = 0" "length (requests renewing) = 3"
  "network renewing = session [Rejects ''ECONNRESET'', Resolves (okResponse Map.empty (Parsed JOther))]"
  "keepAlive (httpsAgent renewing)"
  by (simp_all add: renewing_def renewCredentials_def elapse_no_timers firstSync_simps cfg0_simps newHeaders_def)

lemma renewing_probes:
  "fst (fetch cfg0 (probeRoot cfg0) False True renewing) = None"
  "fst (fetch cfg0 (probeCloudKey cfg0) False True (snd (fetch cfg0 (probeRoot cfg0) False True renewing)))
     = Some (okResponse Map.empty (Parsed JOther))"
  "fst (acquireToken cfg0 renewing) = True"
  "isUnifiOs (snd (acquireToken cfg0 renewing))"
  "keepAlive (httpsAgent (snd (acquireToken cfg0 renewing)))"
  by (simp_all add: acquireToken_def hasCsrfToken_def okOpt_def truthy_def ok_def governor_defs renewing_simps cfg0_simps session_def okResponse_def Let_def)

lemma firstLogin_more:
  "length (requests (firstLogin later)) = 2" "eventListener (firstLogin later) = None"
  "sockets (firstLogin later) = []"
  by (simp_all add: firstLogin_def api_defs example_defs Let_def)

lemma staleLogin_simps:
  "\<not> fst (loginProtect cfg0 (elapse 2000000 (firstLogin [])))"
  "length (requests (snd (loginProtect cfg0 (elapse 2000000 (firstLogin []))))) = 4"
  by (simp_all add: elapse_no_timers firstLogin_simps firstLogin_more api_defs example_defs Let_def)

lemma elapsedLogin_simps:
  "clock (elapse 2000000 (firstLogin [])) = 2000000" "loginAge (elapse 2000000 (firstLogin [])) = 0"
  "apiErrorCount (elapse 2000000 (firstLogin [])) = 0"
  "length (requests (elapse 2000000 (firstLogin []))) = 2"
  by (simp_all add: elapse_no_timers firstLogin_simps firstLogin_more)

lemma renewed_simps:
  "fst (acquireToken cfg0 (renewCredentials cfg0 (elapse 2000000 (firstSync renewedAnswers))))"
  "fst (loginProtect cfg0 (elapse 2000000 (firstSync renewedAnswers)))"
  "map req_method (drop 3 (requests (snd (loginProtect cfg0 (elapse 2000000 (firstSync renewedAnswers))))))
     = [''GET'', ''POST'']"
  "loginAge (snd (loginProtect cfg0 (elapse 2000000 (firstSync renewedAnswers)))) = 2000000"
  by (simp_all add: elapse_no_timers firstSync_simps api_defs example_defs renewedAnswers_def Let_def)

lemma elapsedSync_simps:
  "clock (elapse 2000000 (firstSync later)) = 2000000"
  "loginAge (elapse 2000000 (firstSync later)) = 0"
  "length (requests (elapse 2000000 (firstSync later))) = 3"
  by (simp_all add: elapse_no_timers firstSync_simps)

subsection \<open>Login\<close>

text \<open>
  Claim C3. With \<open>R\<close> the login refresh interval of the settings:
  \<^item> \<open>loginProtect\<close> on a session that is logged in, before \<open>R\<close> seconds have
    passed since the last successful login, returns true and changes nothing: it sends
    no request;
  \<^item> a call that starts from any other session and returns true has sent exactly one
    authentication request (a POST, after the GET probes of the device detection, if
    any), which the controller answered with success; the session is then logged in
    with the time of that call as its login time, and a second call before the refresh
    interval has passed returns true without sending anything: the two calls together
    make exactly one authentication round trip;
  \<^item> a call made after the refresh interval has elapsed does not take the shortcut,
    even when the session was logged in: unless the governor is throttling, it goes to
    the network; when the detection of the device succeeds, it sends the authentication
    request again; and unless the new login succeeds the session is left logged out (by
    the second item, it returns true only after a new authentication round trip).
\<close>

theorem loginProtect_idempotent_renewing:
  "(loggedIn s \<and> \<not> clock s > loginAge s + PROTECT_LOGIN_REFRESH_INTERVAL cfg * 1000 \<longrightarrow>
      loginProtect cfg s = (True, s))
   \<and> (\<not> (loggedIn s \<and> \<not> clock s > loginAge s + PROTECT_LOGIN_REFRESH_INTERVAL cfg * 1000)
        \<and> loginProtect cfg s = (True, s') \<longrightarrow>
      (\<exists>probes auth. requests s' = requests s @ probes @ [auth]
          \<and> list_all (\<lambda>p. req_method p = ''GET'') probes \<and> req_method auth = ''POST''
          \<and> (\<exists>d r. network s (length (requests s @ probes)) = (d, Resolves r) \<and> ok r))
      \<and> loggedIn s' \<and> loginAge s' = clock s
      \<and> (\<not> clock s' > loginAge s' + PROTECT_LOGIN_REFRESH_INTERVAL cfg * 1000 \<longrightarrow>
            loginProtect cfg s' = (True, s')))
   \<and> (clock s > loginAge s + PROTECT_LOGIN_REFRESH_INTERVAL cfg * 1000
        \<and> apiErrorCount s < PROTECT_API_ERROR_LIMIT cfg \<longrightarrow>
      length (requests s) < length (requests (snd (loginProtect cfg s))))
   \<and> (clock s > loginAge s + PROTECT_LOGIN_REFRESH_INTERVAL cfg * 1000
        \<and> \<not> fst (loginProtect cfg s) \<longrightarrow>
      \<not> loggedIn (snd (loginProtect cfg s)))
   \<and> (clock s > loginAge s + PROTECT_LOGIN_REFRESH_INTERVAL cfg * 1000
        \<and> 0 < PROTECT_API_ERROR_LIMIT cfg
        \<and> acquireToken cfg (renewCredentials cfg s) = (True, s1) \<longrightarrow>
      (\<exists>probes. requests (snd (loginProtect cfg s)) = requests s @ probes @ [authRequest cfg s1]
          \<and> list_all (\<lambda>p. req_method p = ''GET'') probes))"
proof (intro conjI impI)
  assume "loggedIn s \<and> \<not> clock s > loginAge s + PROTECT_LOGIN_REFRESH_INTERVAL cfg * 1000"
  then show "loginProtect cfg s = (True, s)" by (simp add: loginProtect_fresh)
next
  assume a: "\<not> (loggedIn s \<and> \<not> clock s > loginAge s + PROTECT_LOGIN_REFRESH_INTERVAL cfg * 1000)
        \<and> loginProtect cfg s = (True, s')"
  then have l: "loginProtect cfg s = (True, s')"
    and n: "\<not> (loggedIn s \<and> \<not> clock s > loginAge s + PROTECT_LOGIN_REFRESH_INTERVAL cfg * 1000)"
    by simp_all
  show "\<exists>probes auth. requests s' = requests s @ probes @ [auth]
          \<and> list_all (\<lambda>p. req_method p = ''GET'') probes \<and> req_method auth = ''POST''
          \<and> (\<exists>d r. network s (length (requests s @ probes)) = (d, Resolves r) \<and> ok r)"
    by (rule loginProtect_authenticates(1) [OF l n])
  show li: "loggedIn s'" by (rule loginProtect_authenticates(2) [OF l n])
  show "loginAge s' = clock s" by (rule loginProtect_authenticates(3) [OF l n])
  assume "\<not> clock s' > loginAge s' + PROTECT_LOGIN_REFRESH_INTERVAL cfg * 1000"
  with li show "loginProtect cfg s' = (True, s')" by (simp add: loginProtect_fresh)
next
  assume "clock s > loginAge s + PROTECT_LOGIN_REFRESH_INTERVAL cfg * 1000
        \<and> apiErrorCount s < PROTECT_API_ERROR_LIMIT cfg"
  then show "length (requests s) < length (requests (snd (loginProtect cfg s)))"
    using loginProtect_stale_attempts [of s cfg "fst (loginProtect cfg s)" "snd (loginProtect cfg s)"]
    by simp
next
  assume "clock s > loginAge s + PROTECT_LOGIN_REFRESH_INTERVAL cfg * 1000
        \<and> \<not> fst (loginProtect cfg s)"
  then show "\<not> loggedIn (snd (loginProtect cfg s))"
    using loginProtect_stale_failure [of s cfg "snd (loginProtect cfg s)"]
    by (simp add: prod_eq_iff)
next
  assume "clock s > loginAge s + PROTECT_LOGIN_REFRESH_INTERVAL cfg * 1000
        \<and> 0 < PROTECT_API_ERROR_LIMIT cfg
        \<and> acquireToken cfg (renewCredentials cfg s) = (True, s1)"
  then show "\<exists>probes. requests (snd (loginProtect cfg s)) = requests s @ probes @ [authRequest cfg s1]
          \<and> list_all (\<lambda>p. req_method p = ''GET'') probes"
    using loginProtect_stale_reauthenticates [of s cfg s1] by simp
qed

text \<open>
  Claim C3 on the example: the first login of a new client sends one probe and one
  authentication request; a second login right after it sends nothing; 2000 seconds
  later the login goes to the network again, and, the controller no longer answering
  the port 7443, fails and leaves the session logged out. With a controller that
  answers, the login made 2000 seconds after the first refresh sends a probe and an
  authentication request again, and the login time becomes the time of that call.
\<close>

theorem loginProtect_idempotent_renewing_witness:
  "loggedIn (firstLogin [])
   \<and> \<not> clock (firstLogin []) > loginAge (firstLogin []) + PROTECT_LOGIN_REFRESH_INTERVAL cfg0 * 1000
   \<and> loginProtect cfg0 (firstLogin []) = (True, firstLogin [])
   \<and> \<not> loggedIn (newProtectApi (session []) 0)
   \<and> loginProtect cfg0 (newProtectApi (session []) 0) = (True, firstLogin [])
   \<and> map req_method (requests (firstLogin [])) = [''GET'', ''POST'']
   \<and> loginAge (firstLogin []) = clock (newProtectApi (session []) 0)
   \<and> clock (elapse 2000000 (firstLogin []))
        > loginAge (elapse 2000000 (firstLogin [])) + PROTECT_LOGIN_REFRESH_INTERVAL cfg0 * 1000
   \<and> apiErrorCount (elapse 2000000 (firstLogin [])) < PROTECT_API_ERROR_LIMIT cfg0
   \<and> length (requests (elapse 2000000 (firstLogin [])))
        < length (requests (snd (loginProtect cfg0 (elapse 2000000 (firstLogin [])))))
   \<and> \<not> fst (loginProtect cfg0 (elapse 2000000 (firstLogin [])))
   \<and> \<not> loggedIn (snd (loginProtect cfg0 (elapse 2000000 (firstLogin []))))
   \<and> clock (elapse 2000000 (firstSync renewedAnswers))
        > loginAge (elapse 2000000 (firstSync renewedAnswers))
          + PROTECT_LOGIN_REFRESH_INTERVAL cfg0 * 1000
   \<and> fst (acquireToken cfg0 (renewCredentials cfg0 (elapse 2000000 (firstSync renewedAnswers))))
   \<and> fst (loginProtect cfg0 (elapse 2000000 (firstSync renewedAnswers)))
   \<and> map req_method
         (drop 3 (requests (snd (loginProtect cfg0 (elapse 2000000 (firstSync renewedAnswers))))))
       = [''GET'', ''POST'']
   \<and> loginAge (snd (loginProtect cfg0 (elapse 2000000 (firstSync renewedAnswers)))) = 2000000"
  using loginProtect_idempotent_renewing [of "firstLogin []" cfg0 "firstLogin []"]
    loginProtect_idempotent_renewing [of "newProtectApi (session []) 0" cfg0 "firstLogin []"]
    loginProtect_idempotent_renewing [of "elapse 2000000 (firstLogin [])" cfg0 "firstLogin []"]
    loginProtect_idempotent_renewing [of "elapse 2000000 (firstSync renewedAnswers)" cfg0
      "firstLogin []"
      "snd (acquireToken cfg0 (renewCredentials cfg0 (elapse 2000000 (firstSync renewedAnswers))))"]
    firstLogin_result [of "[]"]
  by (simp add: firstLogin_simps firstLogin_more newProtectApi_simps cfg0_simps staleLogin_simps
      elapsedLogin_simps elapsedSync_simps renewed_simps prod_eq_iff firstLogin_def [symmetric])

subsection \<open>Device detection\<close>

lemma detection_examples:
  "fst (fetch cfg0 (probeRoot cfg0) False True (newProtectApi (session []) 0))
     = Some (okResponse [''X-CSRF-Token'' \<mapsto> ''t0''] (Parsed JOther))"
  "fst (fetch cfg0 (probeRoot cfg0) False True (newProtectApi cloudKey 0)) = None"
  "fst (fetch cfg0 (probeCloudKey cfg0) False True
          (snd (fetch cfg0 (probeRoot cfg0) False True (newProtectApi cloudKey 0))))
     = Some (okResponse Map.empty (Parsed JOther))"
  "fst (fetch cfg0 (probeRoot cfg0) False True (newProtectApi unreachable 0)) = None"
  "fst (fetch cfg0 (probeCloudKey cfg0) False True
          (snd (fetch cfg0 (probeRoot cfg0) False True (newProtectApi unreachable 0)))) = None"
  by (simp_all add: governor_defs newProtectApi_simps cfg0_simps session_def cloudKey_def
      unreachable_def okResponse_def ok_def Let_def)

lemma detection_results:
  "fst (acquireToken cfg0 (newProtectApi (session []) 0))"
  "isUnifiOs (snd (acquireToken cfg0 (newProtectApi (session []) 0)))"
  "keepAlive (httpsAgent (snd (acquireToken cfg0 (newProtectApi (session []) 0))))"
  "fst (acquireToken cfg0 (newProtectApi cloudKey 0))"
  "\<not> isUnifiOs (snd (acquireToken cfg0 (newProtectApi cloudKey 0)))"
  "\<not> fst (acquireToken cfg0 (newProtectApi unreachable 0))"
  by (simp_all add: api_defs example_defs cloudKey_def unreachable_def Let_def)

text \<open>
  Claim C7, as the specification states it, fails in its second case: \<open>acquireToken\<close>
  never writes \<open>isUnifiOs = false\<close>, it only leaves the flag as it is. When a login
  is renewed, \<open>loginProtect\<close> resets the headers but not the flag; here the device was
  detected as UniFi OS at the first login, and at the renewal the bare address resets
  the connection while the port 7443 answers: the detection succeeds through the port
  7443 and the device type stays UniFi OS (with its keepalive agent), not Cloud Key.
\<close>

theorem acquireToken_renewal_counterexample:
  "\<not> loggedIn renewing \<and> headers renewing ''X-CSRF-Token'' = None
   \<and> headers renewing ''Authorization'' = None
   \<and> fst (fetch cfg0 (probeRoot cfg0) False True renewing) = None
   \<and> fst (fetch cfg0 (probeCloudKey cfg0) False True
            (snd (fetch cfg0 (probeRoot cfg0) False True renewing)))
        = Some (okResponse Map.empty (Parsed JOther))
   \<and> fst (acquireToken cfg0 renewing)
   \<and> isUnifiOs (snd (acquireToken cfg0 renewing))
   \<and> keepAlive (httpsAgent (snd (acquireToken cfg0 renewing)))"
  by (simp add: renewing_simps renewing_probes)

text \<open>
  Claim C7, amended. For a session that is not logged in and has no token in its
  headers (so that the detection runs):
  \<^item> when the probe of the bare address returns a response (which \<open>fetch\<close> only does
    for a successful one) that carries a token that is not empty, the detection
    succeeds, the device type is UniFi OS, the token is stored and the agent is the
    keepalive one;
  \<^item> when no token is found and the probe of the port 7443 returns a response, the
    detection succeeds and leaves the device type, the agent and the headers as they
    were: the type is Cloud Key whenever it was not UniFi OS already, as on every new
    and on every cleared session;
  \<^item> when neither probe succeeds, the detection fails and leaves the session as it
    was, so that the next call runs the detection again.
\<close>

theorem acquireToken_detection:
  assumes "\<not> loggedIn s" and "headers s ''X-CSRF-Token'' = None"
    and "headers s ''Authorization'' = None"
  shows
  "(fetch cfg (probeRoot cfg) False True s = (Some r, s1)
      \<and> truthy (resp_headers r ''X-CSRF-Token'') \<longrightarrow>
      acquireToken cfg s =
        (True, s1\<lparr>headers := (headers s1)(''X-CSRF-Token'' := resp_headers r ''X-CSRF-Token''),
                  isUnifiOs := True, httpsAgent := \<lparr>keepAlive = True\<rparr>\<rparr>))
   \<and> (fetch cfg (probeRoot cfg) False True s = (r1, s1) \<and> \<not> hasCsrfToken r1
      \<and> fetch cfg (probeCloudKey cfg) False True s1 = (Some r2, s2) \<longrightarrow>
      acquireToken cfg s = (True, s2) \<and> isUnifiOs s2 = isUnifiOs s
      \<and> httpsAgent s2 = httpsAgent s \<and> headers s2 = headers s)
   \<and> (fetch cfg (probeRoot cfg) False True s = (r1, s1) \<and> \<not> hasCsrfToken r1
      \<and> fetch cfg (probeCloudKey cfg) False True s1 = (None, s2) \<longrightarrow>
      acquireToken cfg s = (False, s2) \<and> isUnifiOs s2 = isUnifiOs s
      \<and> httpsAgent s2 = httpsAgent s \<and> headers s2 = headers s
      \<and> loggedIn s2 = loggedIn s \<and> loginAge s2 = loginAge s \<and> bootstrap s2 = bootstrap s)"
proof (intro conjI impI)
  assume a: "fetch cfg (probeRoot cfg) False True s = (Some r, s1)
      \<and> truthy (resp_headers r ''X-CSRF-Token'')"
  then have "ok r" using fetch_Some [of cfg "probeRoot cfg" False s r s1] by simp
  with a assms show "acquireToken cfg s =
        (True, s1\<lparr>headers := (headers s1)(''X-CSRF-Token'' := resp_headers r ''X-CSRF-Token''),
                  isUnifiOs := True, httpsAgent := \<lparr>keepAlive = True\<rparr>\<rparr>)"
    by (simp add: acquireToken_def hasCsrfToken_def okOpt_def)
next
  assume a: "fetch cfg (probeRoot cfg) False True s = (r1, s1) \<and> \<not> hasCsrfToken r1
      \<and> fetch cfg (probeCloudKey cfg) False True s1 = (Some r2, s2)"
  then have f1: "fetch cfg (probeRoot cfg) False True s = (r1, s1)"
    and f2: "fetch cfg (probeCloudKey cfg) False True s1 = (Some r2, s2)" by simp_all
  have "ok r2" using fetch_Some [OF f2] by simp
  with a assms show "acquireToken cfg s = (True, s2)"
    by (simp add: acquireToken_def okOpt_def)
  show "isUnifiOs s2 = isUnifiOs s" "httpsAgent s2 = httpsAgent s" "headers s2 = headers s"
    using fetch_frame [OF f1] fetch_frame [OF f2] by simp_all
next
  assume a: "fetch cfg (probeRoot cfg) False True s = (r1, s1) \<and> \<not> hasCsrfToken r1
      \<and> fetch cfg (probeCloudKey cfg) False True s1 = (None, s2)"
  then have f1: "fetch cfg (probeRoot cfg) False True s = (r1, s1)"
    and f2: "fetch cfg (probeCloudKey cfg) False True s1 = (None, s2)" by simp_all
  from a assms show "acquireToken cfg s = (False, s2)"
    by (simp add: acquireToken_def okOpt_def)
  show "isUnifiOs s2 = isUnifiOs s" "httpsAgent s2 = httpsAgent s" "headers s2 = headers s"
    "loggedIn s2 = loggedIn s" "loginAge s2 = loginAge s" "bootstrap s2 = bootstrap s"
    using fetch_frame [OF f1] fetch_frame [OF f2] by simp_all
qed

text \<open>
  Claim C7 (amended) on three new clients: a UniFi OS controller, a Cloud Key, and a
  controller that refuses every connection.
\<close>

theorem acquireToken_detection_witness:
  "\<not> loggedIn (newProtectApi (session []) 0)
   \<and> headers (newProtectApi (session []) 0) ''X-CSRF-Token'' = None
   \<and> headers (newProtectApi (session []) 0) ''Authorization'' = None
   \<and> fst (fetch cfg0 (probeRoot cfg0) False True (newProtectApi (session []) 0))
        = Some (okResponse [''X-CSRF-Token'' \<mapsto> ''t0''] (Parsed JOther))
   \<and> fst (acquireToken cfg0 (newProtectApi (session []) 0))
   \<and> isUnifiOs (snd (acquireToken cfg0 (newProtectApi (session []) 0)))
   \<and> keepAlive (httpsAgent (snd (acquireToken cfg0 (newProtectApi (session []) 0))))
   \<and> fst (fetch cfg0 (probeRoot cfg0) False True (newProtectApi cloudKey 0)) = None
   \<and> fst (fetch cfg0 (probeCloudKey cfg0) False True
            (snd (fetch cfg0 (probeRoot cfg0) False True (newProtectApi cloudKey 0))))
        = Some (okResponse Map.empty (Parsed JOther))
   \<and> fst (acquireToken cfg0 (newProtectApi cloudKey 0))
   \<and> \<not> isUnifiOs (snd (acquireToken cfg0 (newProtectApi cloudKey 0)))
   \<and> fst (fetch cfg0 (probeCloudKey cfg0) False True
            (snd (fetch cfg0 (probeRoot cfg0) False True (newProtectApi unreachable 0)))) = None
   \<and> \<not> fst (acquireToken cfg0 (newProtectApi unreachable 0))
   \<and> \<not> isUnifiOs (snd (acquireToken cfg0 (newProtectApi unreachable 0)))"
  using
    acquireToken_detection [where s = "newProtectApi (session []) 0" and cfg = cfg0
      and r = "okResponse [''X-CSRF-Token'' \<mapsto> ''t0''] (Parsed JOther)"
      and ?s1.0 = "snd (fetch cfg0 (probeRoot cfg0) False True (newProtectApi (session []) 0))"
      and ?r1.0 = None and ?r2.0 = "okResponse Map.empty (Parsed JOther)"
      and ?s2.0 = "newProtectApi (session []) 0"]
    acquireToken_detection [where s = "newProtectApi cloudKey 0" and cfg = cfg0
      and r = "okResponse Map.empty (Parsed JOther)"
      and ?s1.0 = "snd (fetch cfg0 (probeRoot cfg0) False True (newProtectApi cloudKey 0))"
      and ?r1.0 = None and ?r2.0 = "okResponse Map.empty (Parsed JOther)"
      and ?s2.0 = "snd (fetch cfg0 (probeCloudKey cfg0) False True
            (snd (fetch cfg0 (probeRoot cfg0) False True (newProtectApi cloudKey 0))))"]
    acquireToken_detection [where s = "newProtectApi unreachable 0" and cfg = cfg0
      and r = "okResponse Map.empty (Parsed JOther)"
      and ?s1.0 = "snd (fetch cfg0 (probeRoot cfg0) False True (newProtectApi unreachable 0))"
      and ?r1.0 = None and ?r2.0 = "okResponse Map.empty (Parsed JOther)"
      and ?s2.0 = "snd (fetch cfg0 (probeCloudKey cfg0) False True
            (snd (fetch cfg0 (probeRoot cfg0) False True (newProtectApi unreachable 0))))"]
  by (simp add: detection_examples detection_results newProtectApi_simps newHeaders_def prod_eq_iff
      hasCsrfToken_def okOpt_def truthy_def okResponse_def)

subsection \<open>Bootstrap: what each step changes\<close>

lemma checkAdminUserStatus_frame:
  "checkAdminUserStatus cfg fr s = (r, s') \<Longrightarrow>
     bootstrap s' = bootstrap s \<and> Cameras s' = Cameras s \<and> network s' = network s
     \<and> requests s' = requests s \<and> clock s' = clock s \<and> isUnifiOs s' = isUnifiOs s
     \<and> loggedIn s' = loggedIn s \<and> loginAge s' = loginAge s \<and> headers s' = headers s
     \<and> eventListener s' = eventListener s \<and> sockets s' = sockets s \<and> timers s' = timers s
     \<and> filter isDeviceLine (events s') = filter isDeviceLine (events s)"
  unfolding checkAdminUserStatus_def Let_def
  by (auto simp: logEvent_def split: option.splits outcome.splits if_splits)

lemma launchEventListener_frame:
  assumes "launchEventListener cfg s = (b, s')"
  shows "Cameras s' = Cameras s \<and> network s' = network s \<and> clock s \<le> clock s'
     \<and> filter isDeviceLine (events s') = filter isDeviceLine (events s)
     \<and> (bootstrap s' = bootstrap s \<or> bootstrap s' = None)
     \<and> (b \<longrightarrow> bootstrap s' = bootstrap s)"
proof -
  obtain b1 s1 where l: "loginProtect cfg s = (b1, s1)" by (cases "loginProtect cfg s")
  show ?thesis
  proof (cases b1)
    case True
    then show ?thesis using assms l loginProtect_frame [OF l]
      unfolding launchEventListener_def Let_def
      by (auto simp: logEvent_def split: if_splits)
  next
    case False
    then show ?thesis using assms l loginProtect_frame [OF l]
      unfolding launchEventListener_def by auto
  qed
qed

lemma storeBootstrap_frame:
  assumes "storeBootstrap cfg data s = (r, s')"
  shows "Cameras s' = Cameras s \<and> network s' = network s \<and> clock s \<le> clock s'
     \<and> filter isDeviceLine (events s') = filter isDeviceLine (events s)
     \<and> (bootstrap s' = Some data \<or> bootstrap s' = None)
     \<and> (r = Returned True \<longrightarrow> bootstrap s' = Some data)"
proof (cases "bootstrap s = None \<and> nvr data = None")
  case True
  then show ?thesis using assms by (auto simp: storeBootstrap_def Let_def)
next
  case False
  define s3 where "s3 = logEvent DebugInspectBootstrap
     (if bootstrap s = None then logEvent (LogConnected (the (nvr data))) (s\<lparr>bootstrap := Some data\<rparr>)
      else s\<lparr>bootstrap := Some data\<rparr>)"
  have s3: "Cameras s3 = Cameras s" "network s3 = network s" "clock s3 = clock s"
    "bootstrap s3 = Some data" "filter isDeviceLine (events s3) = filter isDeviceLine (events s)"
    by (simp_all add: s3_def logEvent_def)
  obtain r4 s4 where c: "checkAdminUserStatus cfg (bootstrap s = None) s3 = (r4, s4)"
    by (cases "checkAdminUserStatus cfg (bootstrap s = None) s3")
  note c4 = checkAdminUserStatus_frame [OF c]
  obtain b5 s5 where l: "launchEventListener cfg s4 = (b5, s5)"
    by (cases "launchEventListener cfg s4")
  note l5 = launchEventListener_frame [OF l]
  have "(r, s') = (case r4 of Thrown e \<Rightarrow> (Thrown e, s4)
         | Returned x \<Rightarrow> if isUnifiOs s4 then (Returned b5, s5) else (Returned True, s4))"
    using assms False c l unfolding storeBootstrap_def Let_def s3_def [symmetric]
    by (auto split: outcome.splits)
  then show ?thesis using c4 l5 s3 by (auto split: outcome.splits if_splits)
qed

lemma decodeBootstrap_Some:
  "decodeBootstrap b = Some data \<Longrightarrow> b = Parsed (JBootstrap data) \<and> cameras data \<noteq> None"
  by (auto simp: decodeBootstrap_def split: body_t.splits json.splits option.splits)

lemma bootstrapProtect_cases:
  assumes "bootstrapProtect cfg s = (r, s')"
  obtains (loginFailed) "loginProtect cfg s = (False, s')" "r = Returned False"
  | (fetchFailed) s1 response s2 where "loginProtect cfg s = (True, s1)"
      "fetch cfg (bootstrapRequest cfg s1) True True s1 = (response, s2)"
      "response = None \<or> decodeBootstrap (body (the response)) = None"
      "r = Returned False" "bootstrap s' = None" "Cameras s' = Cameras s2"
      "network s' = network s2"
      "filter isDeviceLine (events s') = filter isDeviceLine (events s2)"
  | (stored) s1 response s2 s3 data where "loginProtect cfg s = (True, s1)"
      "fetch cfg (bootstrapRequest cfg s1) True True s1 = (Some response, s2)"
      "decodeBootstrap (body response) = Some data"
      "Cameras s3 = Cameras s2" "network s3 = network s2" "clock s3 = clock s2"
      "filter isDeviceLine (events s3) = filter isDeviceLine (events s2)"
      "storeBootstrap cfg data s3 = (r, s')"
proof -
  obtain b1 s1 where l: "loginProtect cfg s = (b1, s1)" by (cases "loginProtect cfg s")
  obtain response s2 where f: "fetch cfg (bootstrapRequest cfg s1) True True s1 = (response, s2)"
    by (cases "fetch cfg (bootstrapRequest cfg s1) True True s1")
  show thesis
  proof (cases b1)
    case False
    then show ?thesis using assms l loginFailed by (simp add: bootstrapProtect_def)
  next
    case True
    with l have l': "loginProtect cfg s = (True, s1)" by simp
    show ?thesis
    proof (cases "okOpt response \<and> decodeBootstrap (body (the response)) \<noteq> None")
      case False
      then have a: "response = None \<or> decodeBootstrap (body (the response)) = None"
        using fetch_Some [of cfg "bootstrapRequest cfg s1" True s1 _ s2] f
        by (cases response) (auto simp: okOpt_def)
      have b: "r = Returned False \<and> bootstrap s' = None \<and> Cameras s' = Cameras s2
          \<and> network s' = network s2
          \<and> filter isDeviceLine (events s') = filter isDeviceLine (events s2)"
        using assms l f True False unfolding bootstrapProtect_def Let_def
        by (auto simp: clearLoginCredentials_simps logEvent_def split: body_t.splits if_splits)
      show ?thesis using fetchFailed [OF l' f a] b by simp
    next
      case ok: True
      then obtain resp data where r: "response = Some resp"
        and d: "decodeBootstrap (body resp) = Some data"
        by (cases response) (auto simp: okOpt_def)
      define s3 where "s3 = (case body resp of Unparseable \<Rightarrow> logEvent LogParseFailed s2
                           | Parsed j \<Rightarrow> s2)"
      have s3: "Cameras s3 = Cameras s2" "network s3 = network s2" "clock s3 = clock s2"
        "filter isDeviceLine (events s3) = filter isDeviceLine (events s2)"
        by (simp_all add: s3_def logEvent_def split: body_t.splits)
      have st: "storeBootstrap cfg data s3 = (r, s')"
        using assms l f True ok r d unfolding bootstrapProtect_def Let_def s3_def
        by simp
      have f': "fetch cfg (bootstrapRequest cfg s1) True True s1 = (Some resp, s2)"
        using f r by simp
      show ?thesis by (rule stored [OF l' f' d s3 st])
    qed
  qed
qed


lemma bootstrapProtect_frame:
  assumes "bootstrapProtect cfg s = (r, s')"
  shows "Cameras s' = Cameras s \<and> network s' = network s \<and>
    filter isDeviceLine (events s') = filter isDeviceLine (events s) \<and>
    (bootstrap s' = bootstrap s \<or> bootstrap s' = None
       \<or> (\<exists>data n d resp. bootstrap s' = Some data \<and> network s n = (d, Resolves resp) \<and> ok resp
             \<and> body resp = Parsed (JBootstrap data) \<and> cameras data \<noteq> None)) \<and>
    (r = Returned True \<longrightarrow> (\<exists>data. bootstrap s' = Some data \<and> cameras data \<noteq> None))"
  using assms
proof (cases rule: bootstrapProtect_cases)
  case loginFailed
  then show ?thesis using loginProtect_frame [OF loginFailed(1)] by auto
next
  case (fetchFailed s1 response s2)
  then show ?thesis
    using loginProtect_frame [OF fetchFailed(1)] fetch_frame [OF fetchFailed(2)] by simp
next
  case (stored s1 response s2 s3 data)
  note lf = loginProtect_frame [OF stored(1)]
  note ff = fetch_frame [OF stored(2)]
  note fs = fetch_Some [OF stored(2)]
  note ds = decodeBootstrap_Some [OF stored(3)]
  note sf = storeBootstrap_frame [OF stored(8)]
  have n: "\<exists>n d. network s n = (d, Resolves response)" using fs lf by auto
  have "bootstrap s' = None \<or> (\<exists>data n d resp. bootstrap s' = Some data \<and> network s n = (d, Resolves resp) \<and> ok resp
             \<and> body resp = Parsed (JBootstrap data) \<and> cameras data \<noteq> None)"
    using sf n fs ds by blast
  moreover have "r = Returned True \<longrightarrow> (\<exists>data. bootstrap s' = Some data \<and> cameras data \<noteq> None)"
    using sf ds by blast
  ultimately show ?thesis
    using lf ff sf stored(4,5,7) by simp
qed

subsection \<open>The bootstrap snapshot\<close>

lemma refreshDevices_failure:
  "fst (bootstrapProtect cfg s) \<noteq> Returned True \<Longrightarrow> refreshDevices cfg s = bootstrapProtect cfg s"
  unfolding refreshDevices_def
  by (cases "bootstrapProtect cfg s") (auto split: outcome.splits bool.splits)

lemma refreshDevices_result:
  "fst (refreshDevices cfg s) = Returned True \<longleftrightarrow> fst (bootstrapProtect cfg s) = Returned True"
proof (cases "bootstrapProtect cfg s")
  case (Pair r s1)
  show ?thesis
  proof (cases "r = Returned True")
    case True
    then obtain data where "bootstrap s1 = Some data"
      using bootstrapProtect_frame [OF Pair] by auto
    then show ?thesis using Pair True
      by (simp add: refreshDevices_def Let_def logEvent_def)
  next
    case False
    then show ?thesis using refreshDevices_failure [of cfg s] Pair by simp
  qed
qed

lemma decodeBootstrap_failures:
  "decodeBootstrap Unparseable = None" "decodeBootstrap (Parsed JOther) = None"
  "decodeBootstrap (Parsed (JCamera c)) = None"
  "decodeBootstrap (Parsed (JBootstrap (data\<lparr>cameras := None\<rparr>))) = None"
  by (simp_all add: decodeBootstrap_def)

lemma bootstrapProtect_fetch_failure:
  assumes "loginProtect cfg s = (True, s1)"
    and "fetch cfg (bootstrapRequest cfg s1) True True s1 = (response, s2)"
    and "response = None \<or> decodeBootstrap (body (the response)) = None"
  shows "fst (bootstrapProtect cfg s) = Returned False"
    and "bootstrap (snd (bootstrapProtect cfg s)) = None"
  using assms unfolding bootstrapProtect_def Let_def
  by (auto simp: okOpt_def clearLoginCredentials_simps split: option.splits)

lemma thirdSync_unavailable:
  "fst (refreshDevices cfg0 (firstSync [unavailable])) = Returned False"
  "bootstrap (snd (refreshDevices cfg0 (firstSync [unavailable]))) = None"
  "Cameras (snd (refreshDevices cfg0 (firstSync [unavailable]))) = Some [camA, camB]"
  by (simp_all add: api_defs example_defs unavailable_def Let_def firstSync_simps)

lemma malformed_simps:
  "loginProtect cfg0 (firstSync [malformed]) = (True, firstSync [malformed])"
  "fst (fetch cfg0 (bootstrapRequest cfg0 (firstSync [malformed])) True True (firstSync [malformed]))
     = Some (okResponse Map.empty Unparseable)"
  by (simp_all add: loginProtect_fresh firstSync_simps cfg0_simps governor_defs session_def
      malformed_def okResponse_def ok_def Let_def)

text \<open>
  Claim C2, as the specification states it, fails: when the bootstrap request fails,
  \<open>bootstrapProtect\<close> calls \<open>clearLoginCredentials\<close>, which sets the stored snapshot
  to \<open>null\<close>. Here a client that holds the first snapshot refreshes again and the
  controller answers 503: the refresh reports failure and the snapshot is gone.
\<close>

theorem refreshDevices_clears_snapshot_counterexample:
  "bootstrap (firstSync [unavailable]) = Some firstBootstrap
   \<and> fst (refreshDevices cfg0 (firstSync [unavailable])) = Returned False
   \<and> bootstrap (snd (refreshDevices cfg0 (firstSync [unavailable]))) = None"
  by (simp add: firstSync_simps thirdSync_unavailable)

text \<open>
  Claim C2, amended to what \<open>bootstrapProtect\<close> and \<open>refreshDevices\<close> do:
  \<^item> the list of cameras that the client keeps for the diff (\<open>Cameras\<close>) is never
    touched by \<open>bootstrapProtect\<close>, and \<open>refreshDevices\<close> leaves it intact unless
    it returns true;
  \<^item> after any call the stored snapshot is the previous one, \<open>null\<close>, or the body of
    a successful answer of the controller, parsed in full, with a list of cameras: it
    is never a partial one;
  \<^item> when the client is logged in and the bootstrap request fails (no successful
    answer, a body that is not JSON, a body without a list of cameras), both methods
    report failure and the stored snapshot is cleared to \<open>null\<close>.
\<close>

theorem bootstrap_snapshot_replacement:
  "Cameras (snd (bootstrapProtect cfg s)) = Cameras s
   \<and> (bootstrap (snd (bootstrapProtect cfg s)) = bootstrap s
        \<or> bootstrap (snd (bootstrapProtect cfg s)) = None
        \<or> (\<exists>data n d resp. bootstrap (snd (bootstrapProtect cfg s)) = Some data
              \<and> network s n = (d, Resolves resp) \<and> ok resp
              \<and> body resp = Parsed (JBootstrap data) \<and> cameras data \<noteq> None))
   \<and> (loginProtect cfg s = (True, s1)
        \<and> fetch cfg (bootstrapRequest cfg s1) True True s1 = (response, s2)
        \<and> (response = None \<or> decodeBootstrap (body (the response)) = None) \<longrightarrow>
      fst (bootstrapProtect cfg s) = Returned False
      \<and> bootstrap (snd (bootstrapProtect cfg s)) = None
      \<and> refreshDevices cfg s = bootstrapProtect cfg s)
   \<and> (fst (refreshDevices cfg s) \<noteq> Returned True \<longrightarrow>
        Cameras (snd (refreshDevices cfg s)) = Cameras s)
   \<and> decodeBootstrap Unparseable = None \<and> decodeBootstrap (Parsed JOther) = None
   \<and> decodeBootstrap (Parsed (JCamera c)) = None
   \<and> decodeBootstrap (Parsed (JBootstrap (data\<lparr>cameras := None\<rparr>))) = None"
proof -
  obtain r s' where b: "bootstrapProtect cfg s = (r, s')" by (cases "bootstrapProtect cfg s")
  note fr = bootstrapProtect_frame [OF b]
  have 1: "Cameras (snd (bootstrapProtect cfg s)) = Cameras s" using fr b by simp
  have 2: "bootstrap (snd (bootstrapProtect cfg s)) = bootstrap s
        \<or> bootstrap (snd (bootstrapProtect cfg s)) = None
        \<or> (\<exists>data n d resp. bootstrap (snd (bootstrapProtect cfg s)) = Some data
              \<and> network s n = (d, Resolves resp) \<and> ok resp
              \<and> body resp = Parsed (JBootstrap data) \<and> cameras data \<noteq> None)"
    using fr b by simp
  have 3: "loginProtect cfg s = (True, s1)
        \<and> fetch cfg (bootstrapRequest cfg s1) True True s1 = (response, s2)
        \<and> (response = None \<or> decodeBootstrap (body (the response)) = None) \<longrightarrow>
      fst (bootstrapProtect cfg s) = Returned False
      \<and> bootstrap (snd (bootstrapProtect cfg s)) = None
      \<and> refreshDevices cfg s = bootstrapProtect cfg s"
  proof
    assume a: "loginProtect cfg s = (True, s1)
        \<and> fetch cfg (bootstrapRequest cfg s1) True True s1 = (response, s2)
        \<and> (response = None \<or> decodeBootstrap (body (the response)) = None)"
    then have f: "fst (bootstrapProtect cfg s) = Returned False"
      and n: "bootstrap (snd (bootstrapProtect cfg s)) = None"
      using bootstrapProtect_fetch_failure [of cfg s s1 response s2] by simp_all
    from f have "refreshDevices cfg s = bootstrapProtect cfg s"
      by (simp add: refreshDevices_failure)
    with f n show "fst (bootstrapProtect cfg s) = Returned False
      \<and> bootstrap (snd (bootstrapProtect cfg s)) = None
      \<and> refreshDevices cfg s = bootstrapProtect cfg s" by simp
  qed
  have 4: "fst (refreshDevices cfg s) \<noteq> Returned True \<longrightarrow>
        Cameras (snd (refreshDevices cfg s)) = Cameras s"
    using refreshDevices_result [of cfg s] refreshDevices_failure [of cfg s] 1 by auto
  show ?thesis using 1 2 3 4 by (simp only: decodeBootstrap_failures simp_thms)
qed


text \<open>
  Claim C2 (amended) on the example: the client holds the first snapshot, the second
  refresh is answered with a body that is not JSON.
\<close>

theorem bootstrap_snapshot_replacement_witness:
  "loginProtect cfg0 (firstSync [malformed]) = (True, firstSync [malformed])
   \<and> fst (fetch cfg0 (bootstrapRequest cfg0 (firstSync [malformed])) True True (firstSync [malformed]))
        = Some (okResponse Map.empty Unparseable)
   \<and> decodeBootstrap (body (okResponse Map.empty Unparseable)) = None
   \<and> fst (bootstrapProtect cfg0 (firstSync [malformed])) = Returned False
   \<and> bootstrap (snd (bootstrapProtect cfg0 (firstSync [malformed]))) = None
   \<and> fst (refreshDevices cfg0 (firstSync [malformed])) \<noteq> Returned True
   \<and> Cameras (snd (refreshDevices cfg0 (firstSync [malformed]))) = Some [camA, camB]"
  using bootstrap_snapshot_replacement [where s = "firstSync [malformed]" and cfg = cfg0
      and ?s1.0 = "firstSync [malformed]"
      and response = "Some (okResponse Map.empty Unparseable)"
      and ?s2.0 = "snd (fetch cfg0 (bootstrapRequest cfg0 (firstSync [malformed])) True True
                          (firstSync [malformed]))"]
  by (simp add: malformed_simps prod_eq_iff firstSync_simps okResponse_def decodeBootstrap_def)

subsection \<open>The diff of the lists of devices\<close>

lemma discoveredEvents_eq:
  "discoveredEvents known new =
     concat (map (\<lambda>c. [LogDiscovered c, DebugInspectDevice c])
       (filter (\<lambda>c. isManaged c
            \<and> \<not> (case known of None \<Rightarrow> False | Some old \<Rightarrow> \<exists>x \<in> set old. mac x = mac c)) new))"
  by (induction new) (auto simp: list_ex_iff split: option.splits)

lemma removedEvents_eq:
  "removedEvents newl old =
     concat (map (\<lambda>c. [DebugRemoved c, DebugInspectDevice c])
       (filter (\<lambda>c. \<not> (case newl of None \<Rightarrow> False | Some new \<Rightarrow> \<exists>x \<in> set new. mac x = mac c)) old))"
  by (induction old) (auto simp: list_ex_iff split: option.splits)

lemma deviceLines_discovered:
  "filter isDeviceLine (discoveredEvents known new) =
     map LogDiscovered (filter (\<lambda>c. isManaged c
            \<and> \<not> (case known of None \<Rightarrow> False | Some old \<Rightarrow> \<exists>x \<in> set old. mac x = mac c)) new)"
  by (induction new) (auto simp: list_ex_iff split: option.splits)

lemma deviceLines_removed:
  "filter isDeviceLine (removedEvents newl old) =
     map DebugRemoved
       (filter (\<lambda>c. \<not> (case newl of None \<Rightarrow> False | Some new \<Rightarrow> \<exists>x \<in> set new. mac x = mac c)) old)"
  by (induction old) (auto simp: list_ex_iff split: option.splits)

text \<open>
  Claim C4. When \<open>refreshDevices\<close> returns true, the new list of cameras is the one
  of the snapshot just fetched, and the lines it has written about devices are exactly:
  one "discovered" line for every camera of the new list that is managed and whose mac
  address is not in the previous list, in the order of the new list; then one
  "removed" line for every camera of the previous list whose mac address is not in the
  new list. A camera whose mac address is in both lists gets neither line, and nothing
  else in the refresh writes such a line. (The code writes the "discovered" line with
  \<open>this.log\<close> and the "removed" line with \<open>this.debug\<close>.)
\<close>

theorem refreshDevices_diff:
  "refreshDevices cfg s = (Returned True, s') \<longrightarrow>
     (\<exists>new. Cameras s' = Some new
        \<and> (\<exists>data. bootstrap s' = Some data \<and> cameras data = Some new)
        \<and> filter isDeviceLine (events s') =
            filter isDeviceLine (events s)
            @ map LogDiscovered
                (filter (\<lambda>c. isManaged c
                     \<and> \<not> (case Cameras s of None \<Rightarrow> False
                           | Some old \<Rightarrow> \<exists>x \<in> set old. mac x = mac c)) new)
            @ map DebugRemoved
                (filter (\<lambda>c. \<not> (\<exists>x \<in> set new. mac x = mac c))
                   (case Cameras s of None \<Rightarrow> [] | Some old \<Rightarrow> old)))"
proof
  assume a: "refreshDevices cfg s = (Returned True, s')"
  obtain r s1 where b: "bootstrapProtect cfg s = (r, s1)" by (cases "bootstrapProtect cfg s")
  have r: "r = Returned True"
    using refreshDevices_result [of cfg s] a b by simp
  note fr = bootstrapProtect_frame [OF b]
  from fr r obtain data new where d: "bootstrap s1 = Some data" "cameras data = Some new" by auto
  have s': "s' = (logEvent DebugInspectBootstrap s1)
      \<lparr>events := events s1 @ [DebugInspectBootstrap] @ discoveredEvents (Cameras s1) new
                   @ (case Cameras s1 of None \<Rightarrow> [] | Some cs \<Rightarrow> removedEvents (Some new) cs),
        Cameras := Some new\<rparr>"
    using a b r d unfolding refreshDevices_def Let_def
    by (auto simp: logEvent_def split: option.splits)
  have c: "Cameras s1 = Cameras s" using fr by simp
  have e: "filter isDeviceLine (events s1) = filter isDeviceLine (events s)" using fr by simp
  show "\<exists>new. Cameras s' = Some new
        \<and> (\<exists>data. bootstrap s' = Some data \<and> cameras data = Some new)
        \<and> filter isDeviceLine (events s') =
            filter isDeviceLine (events s)
            @ map LogDiscovered
                (filter (\<lambda>c. isManaged c
                     \<and> \<not> (case Cameras s of None \<Rightarrow> False
                           | Some old \<Rightarrow> \<exists>x \<in> set old. mac x = mac c)) new)
            @ map DebugRemoved
                (filter (\<lambda>c. \<not> (\<exists>x \<in> set new. mac x = mac c))
                   (case Cameras s of None \<Rightarrow> [] | Some old \<Rightarrow> old))"
    apply (rule exI [of _ new])
    apply (simp add: s' d c e logEvent_def deviceLines_discovered deviceLines_removed
        split: option.splits)
    done
qed

text \<open>
  Claim C4 on the example of the specification: the previous list is A, B, the new list
  is B, C and C is managed; the refresh writes "C discovered" and "A removed", and
  nothing for B.
\<close>

theorem refreshDevices_diff_witness:
  "refreshDevices cfg0
      (firstSync [Resolves (okResponse Map.empty (Parsed (JBootstrap secondBootstrap)))])
     = (Returned True, secondSync)
   \<and> Cameras (firstSync [Resolves (okResponse Map.empty (Parsed (JBootstrap secondBootstrap)))])
       = Some [camA, camB]
   \<and> Cameras secondSync = Some [camB, camC]
   \<and> isManaged camC
   \<and> filter isDeviceLine (events secondSync) =
       filter isDeviceLine
         (events (firstSync [Resolves (okResponse Map.empty (Parsed (JBootstrap secondBootstrap)))]))
       @ [LogDiscovered camC, DebugRemoved camA]"
  using refreshDevices_diff [of cfg0
      "firstSync [Resolves (okResponse Map.empty (Parsed (JBootstrap secondBootstrap)))]"
      secondSync] secondSync_result
  by (simp add: prod_eq_iff secondSync_def [symmetric] secondSync_simps firstSync_simps
      camA_def camB_def camC_def)

subsection \<open>Admin status\<close>

lemma scanPermissions_Returned:
  "scanPermissions perms = Returned v \<Longrightarrow>
     v = (\<exists>entry \<in> set perms. \<exists>caps rest.
            split_str CHR '':'' entry = ''camera'' # caps # rest
            \<and> ''write'' \<in> set (split_str CHR '','' caps))"
  by (induction perms) (auto split: list.splits if_splits)

lemma scanPermissions_total:
  "\<forall>entry \<in> set perms. 2 \<le> length (split_str CHR '':'' entry) \<Longrightarrow>
     \<exists>v. scanPermissions perms = Returned v"
  by (induction perms) (auto split: list.splits if_splits)

lemma withPermissions_simps:
  "bootstrap (withPermissions perms) =
     Some \<lparr>cameras = Some [], users = Some [\<lparr>user_id = ''u1'', allPermissions = Some perms\<rparr>],
           authUserId = ''u1'', nvr = Some nvr0\<rparr>"
  by (simp add: withPermissions_def)

lemma split_examples:
  "split_str CHR '':'' ''camera:read,write:all'' = [''camera'', ''read,write'', ''all'']"
  "split_str CHR '':'' ''camera:read:all'' = [''camera'', ''read'', ''all'']"
  "split_str CHR '','' ''read,write'' = [''read'', ''write'']"
  "split_str CHR '','' ''read'' = [''read'']"
  by (simp_all add: split_str_def)

text \<open>
  Claim C5, as the specification states it, fails in its last part: when the record of
  the authenticated user is absent, \<open>checkAdminUserStatus\<close> returns before it writes
  \<open>isAdminUser\<close>, so the status keeps its previous value. Here the first snapshot
  made the user an administrator, the second snapshot has no record of the user, and
  the status is still true after the second refresh.
\<close>

theorem checkAdminUserStatus_stale_counterexample:
  "isAdminUser (firstSync [Resolves (okResponse Map.empty (Parsed (JBootstrap secondBootstrap)))])
   \<and> bootstrap secondSync = Some secondBootstrap
   \<and> users secondBootstrap = Some []
   \<and> find (\<lambda>x. user_id x = authUserId secondBootstrap) [] = None
   \<and> isAdminUser secondSync"
  by (simp add: firstSync_simps secondSync_simps secondBootstrap_def)

text \<open>
  Claim C5, amended. When the snapshot has the record of the authenticated user and the
  record has permissions, and \<open>checkAdminUserStatus\<close> returns, the admin status is true
  if and only if one of the permission strings has \<open>camera\<close> as its first field and
  \<open>write\<close> in the comma-separated list of its second field; it does return when every
  permission string has at least two fields. When the snapshot, the list of users, the
  record of the user or its permissions are absent, the method returns false and leaves
  the state, and with it the admin status, as it was; the status is false after the
  constructor and after \<open>clearLoginCredentials\<close>.
\<close>

theorem checkAdminUserStatus_derivation:
  "(bootstrap s = Some b \<and> users b = Some us
      \<and> find (\<lambda>x. user_id x = authUserId b) us = Some user
      \<and> allPermissions user = Some perms \<longrightarrow>
      (checkAdminUserStatus cfg firstRun s = (Returned r, s') \<longrightarrow>
         isAdminUser s' = (\<exists>entry \<in> set perms. \<exists>caps rest.
            split_str CHR '':'' entry = ''camera'' # caps # rest
            \<and> ''write'' \<in> set (split_str CHR '','' caps)))
      \<and> ((\<forall>entry \<in> set perms. 2 \<le> length (split_str CHR '':'' entry)) \<longrightarrow>
           fst (checkAdminUserStatus cfg firstRun s) = Returned True))
   \<and> ((case bootstrap s of
          None \<Rightarrow> True
        | Some b \<Rightarrow>
            (case users b of
               None \<Rightarrow> True
             | Some us \<Rightarrow>
                 (case find (\<lambda>x. user_id x = authUserId b) us of
                    None \<Rightarrow> True
                  | Some user \<Rightarrow> allPermissions user = None))) \<longrightarrow>
        checkAdminUserStatus cfg firstRun s = (Returned False, s))
   \<and> isAdminUser (clearLoginCredentials s) = False
   \<and> isAdminUser (newProtectApi net t) = False"
proof (intro conjI impI)
  assume a: "bootstrap s = Some b \<and> users b = Some us
      \<and> find (\<lambda>x. user_id x = authUserId b) us = Some user
      \<and> allPermissions user = Some perms"
  {
    assume c: "checkAdminUserStatus cfg firstRun s = (Returned r, s')"
    then obtain v where v: "scanPermissions perms = Returned v" and i: "isAdminUser s' = v"
      using a unfolding checkAdminUserStatus_def Let_def
      by (auto simp: logEvent_def split: outcome.splits if_splits)
    show "isAdminUser s' = (\<exists>entry \<in> set perms. \<exists>caps rest.
            split_str CHR '':'' entry = ''camera'' # caps # rest
            \<and> ''write'' \<in> set (split_str CHR '','' caps))"
      using scanPermissions_Returned [OF v] i by simp
  }
  {
    assume "\<forall>entry \<in> set perms. 2 \<le> length (split_str CHR '':'' entry)"
    then obtain v where "scanPermissions perms = Returned v"
      using scanPermissions_total by blast
    then show "fst (checkAdminUserStatus cfg firstRun s) = Returned True"
      using a unfolding checkAdminUserStatus_def Let_def by simp
  }
next
  assume "case bootstrap s of
          None \<Rightarrow> True
        | Some b \<Rightarrow>
            (case users b of
               None \<Rightarrow> True
             | Some us \<Rightarrow>
                 (case find (\<lambda>x. user_id x = authUserId b) us of
                    None \<Rightarrow> True
                  | Some user \<Rightarrow> allPermissions user = None))"
  then show "checkAdminUserStatus cfg firstRun s = (Returned False, s)"
    unfolding checkAdminUserStatus_def Let_def by (simp split: option.splits)
next
  show "isAdminUser (clearLoginCredentials s) = False" by (simp add: clearLoginCredentials_simps)
  show "isAdminUser (newProtectApi net t) = False" by (simp add: newProtectApi_simps)
qed

text \<open>
  Claim C5 (amended) on the examples of the specification: \<open>camera:read,write:all\<close>
  gives an administrator, \<open>camera:read:all\<close> does not, and a new client without a
  snapshot is not an administrator.
\<close>

theorem checkAdminUserStatus_derivation_witness:
  "isAdminUser (snd (checkAdminUserStatus cfg0 True (withPermissions [''camera:read,write:all''])))
   \<and> \<not> isAdminUser (snd (checkAdminUserStatus cfg0 True (withPermissions [''camera:read:all''])))
   \<and> fst (checkAdminUserStatus cfg0 True (withPermissions [''camera:read:all''])) = Returned True
   \<and> bootstrap (newProtectApi unreachable 0) = None
   \<and> checkAdminUserStatus cfg0 True (newProtectApi unreachable 0)
        = (Returned False, newProtectApi unreachable 0)
   \<and> \<not> isAdminUser (newProtectApi unreachable 0)"
  using
    checkAdminUserStatus_derivation [where s = "withPermissions [''camera:read,write:all'']"
      and cfg = cfg0 and firstRun = True and perms = "[''camera:read,write:all'']"
      and user = "\<lparr>user_id = ''u1'', allPermissions = Some [''camera:read,write:all'']\<rparr>"
      and us = "[\<lparr>user_id = ''u1'', allPermissions = Some [''camera:read,write:all'']\<rparr>]"
      and b = "\<lparr>cameras = Some [], users = Some [\<lparr>user_id = ''u1'', allPermissions = Some [''camera:read,write:all'']\<rparr>],
           authUserId = ''u1'', nvr = Some nvr0\<rparr>"
      and r = True
      and s' = "snd (checkAdminUserStatus cfg0 True (withPermissions [''camera:read,write:all'']))"]
    checkAdminUserStatus_derivation [where s = "withPermissions [''camera:read:all'']"
      and cfg = cfg0 and firstRun = True and perms = "[''camera:read:all'']"
      and user = "\<lparr>user_id = ''u1'', allPermissions = Some [''camera:read:all'']\<rparr>"
      and us = "[\<lparr>user_id = ''u1'', allPermissions = Some [''camera:read:all'']\<rparr>]"
      and b = "\<lparr>cameras = Some [], users = Some [\<lparr>user_id = ''u1'', allPermissions = Some [''camera:read:all'']\<rparr>],
           authUserId = ''u1'', nvr = Some nvr0\<rparr>"
      and r = True
      and s' = "snd (checkAdminUserStatus cfg0 True (withPermissions [''camera:read:all'']))"]
    checkAdminUserStatus_derivation [where s = "newProtectApi unreachable 0"
      and cfg = cfg0 and firstRun = True]
  by (simp add: withPermissions_simps split_examples newProtectApi_simps prod_eq_iff)

subsection \<open>Device actions\<close>

text \<open>
  Claim C8. On a session that is logged in, whose login has not expired, and whose user
  is an administrator, \<open>enableRtsp\<close> on a camera all of whose channels have RTSP
  enabled returns the device as it was given and leaves the whole state, the list of
  requests sent included, unchanged: it sends nothing.
\<close>

theorem enableRtsp_idempotent:
  assumes "loggedIn s" and "\<not> clock s > loginAge s + PROTECT_LOGIN_REFRESH_INTERVAL cfg * 1000"
    and "isAdminUser s" and "modelKey device = ''camera''"
    and "case channels device of None \<Rightarrow> True | Some chs \<Rightarrow> \<forall>channel \<in> set chs. isRtspEnabled channel"
  shows "enableRtsp cfg device s = (Returned (Device device), s)"
  using assms by (auto simp: enableRtsp_def loginProtect_fresh list_ex_iff split: option.splits)

text \<open>
  Claim C8 on the example: camera B after the first refresh.
\<close>

theorem enableRtsp_idempotent_witness:
  "loggedIn (firstSync [])
   \<and> \<not> clock (firstSync []) > loginAge (firstSync []) + PROTECT_LOGIN_REFRESH_INTERVAL cfg0 * 1000
   \<and> isAdminUser (firstSync []) \<and> modelKey camB = ''camera''
   \<and> channels camB = Some [\<lparr>chan_id = 0, isRtspEnabled = True\<rparr>, \<lparr>chan_id = 1, isRtspEnabled = True\<rparr>]
   \<and> enableRtsp cfg0 camB (firstSync []) = (Returned (Device camB), firstSync [])"
  using enableRtsp_idempotent [of "firstSync []" cfg0 camB]
  by (simp add: firstSync_simps cfg0_simps camB_def)

text \<open>
  Claim C10. \<open>isAllRtspConfigured\<close> returns true exactly when the stored snapshot has
  a camera with a channel whose RTSP is not enabled; without a snapshot it returns
  \<open>undefined\<close>.
\<close>

theorem isAllRtspConfigured_negated:
  "(isAllRtspConfigured s = Some True \<longleftrightarrow>
     (\<exists>b cs. bootstrap s = Some b \<and> cameras b = Some cs \<and>
        (\<exists>camera \<in> set cs. \<exists>chs. channels camera = Some chs \<and>
           (\<exists>channel \<in> set chs. \<not> isRtspEnabled channel))))
   \<and> isAllRtspConfigured (s\<lparr>bootstrap := None\<rparr>) = None"
proof
  show "isAllRtspConfigured s = Some True \<longleftrightarrow>
     (\<exists>b cs. bootstrap s = Some b \<and> cameras b = Some cs \<and>
        (\<exists>camera \<in> set cs. \<exists>chs. channels camera = Some chs \<and>
           (\<exists>channel \<in> set chs. \<not> isRtspEnabled channel)))"
    by (fastforce simp: isAllRtspConfigured_def list_ex_iff split: option.splits)
  show "isAllRtspConfigured (s\<lparr>bootstrap := None\<rparr>) = None"
    by (simp add: isAllRtspConfigured_def)
qed

lemma isAllRtspConfigured_examples:
  "isAllRtspConfigured (firstSync []) = Some True"
  "isAllRtspConfigured secondSync = Some False"
  "isAllRtspConfigured (newProtectApi net t) = None"
  by (simp_all add: isAllRtspConfigured_def firstSync_simps secondSync_simps newProtectApi_simps
      firstBootstrap_def secondBootstrap_def camA_def camB_def camC_def)

text \<open>
  Claim C9 does not hold of the code. After a transport error \<open>fetch\<close> returns
  \<open>null\<close>; \<open>enableRtsp\<close> and \<open>updateCamera\<close> test \<open>!response?.ok\<close> and then read
  \<open>response.status\<close>, which throws a \<open>TypeError\<close>. A permission string without a
  second field makes \<open>checkAdminUserStatus\<close> throw, and the exception leaves
  \<open>refreshDevices\<close>. Here the controller refuses the connection after the first
  refresh (for the two device actions), or answers the second refresh with a snapshot
  whose user has the permission string \<open>camera\<close>.
\<close>

theorem client_operations_throw:
  "fst (enableRtsp cfg0 camA (firstSync [])) = Thrown TypeError
   \<and> fst (updateCamera cfg0 (Some camB) ''{}'' (firstSync [])) = Thrown TypeError
   \<and> scanPermissions [''camera''] = Thrown TypeError
   \<and> fst (refreshDevices cfg0
            (firstSync [Resolves (okResponse Map.empty (Parsed (JBootstrap badPermissions)))]))
       = Thrown TypeError"
  by (simp add: enableRtsp_def updateCamera_def api_defs example_defs badPermissions_def Let_def
      firstSync_simps)

subsection \<open>The heartbeat of the events listener\<close>

text \<open>
  Claim C6 does not hold of the code. \<open>launchEventListener\<close> registers the method
  \<open>this.heartbeatEventListener\<close> without binding it to the client, so on \<open>open\<close> and
  \<open>ping\<close> it runs with the socket as \<open>this\<close>: the timer handle is stored on the
  socket, and when the silence window elapses the timeout finds no \<open>eventListener\<close>
  on the socket, terminates nothing and clears the properties of the socket instead of
  those of the client. Here the listener is connected by the first refresh (at time
  15), the connection opens, and nothing arrives for more than the 10 seconds of the
  window: the timer has fired, the client still holds its handle, the socket is not
  terminated, and the next \<open>launchEventListener\<close> finds the handle and does not
  reconnect. A ping after 5 seconds does replace the timer, on the socket. Had the
  method run on the client, as a bound listener would, the same silence would have
  terminated the socket and cleared the handle of the client.
\<close>

theorem heartbeat_runs_on_socket:
  "eventListener (firstSync []) = Some 0
   \<and> clock (firstSync []) = 15
   \<and> timers (onOpen cfg0 0 (firstSync [])) = [(0, 10015, SockObj 0)]
   \<and> timers (elapse 10016 (onOpen cfg0 0 (firstSync []))) = []
   \<and> eventListener (elapse 10016 (onOpen cfg0 0 (firstSync []))) = Some 0
   \<and> \<not> terminated (sockets (elapse 10016 (onOpen cfg0 0 (firstSync []))) ! 0)
   \<and> fst (launchEventListener cfg0 (elapse 10016 (onOpen cfg0 0 (firstSync []))))
   \<and> length (sockets (snd (launchEventListener cfg0 (elapse 10016 (onOpen cfg0 0 (firstSync [])))))) = 1
   \<and> timers (onPing cfg0 0 (elapse 5000 (onOpen cfg0 0 (firstSync [])))) = [(1, 15000, SockObj 0)]
   \<and> eventListener (elapse 10016 (heartbeatEventListener cfg0 ApiObj (firstSync []))) = None
   \<and> terminated (sockets (elapse 10016 (heartbeatEventListener cfg0 ApiObj (firstSync []))) ! 0)"
  by (simp add: onOpen_def onPing_def heartbeatEventListener_def heartbeatTimeout_def clearTimeout_def
      setTimeout_def elapse_def launchEventListener_def loginProtect_def renewCredentials_def
      terminate_def firstSync_simps cfg0_simps Let_def)

end
